theory Spec2Isabelle
  imports Complex_Main "HOL-Library.Multiset" "HOL-Library.Product_Lexorder"
begin

section \<open>Per-country analytics over the monthly economic-indicator relation\<close>

text \<open>
  A shallow embedding of the three dbt Python models
  \<^verbatim>\<open>py_anomaly_detection.py\<close>, \<open>py_data_quality_scores.py\<close> and
  \<^verbatim>\<open>py_unemployment_forecast.py\<close>.

  Conventions of the embedding:
  \<^item> a float64 cell is a \<open>real option\<close>: \<open>None\<close> is NaN (pandas' missing value),
    \<open>Some x\<close> a finite number; arithmetic on finite numbers is exact real arithmetic
    (rounding, overflow and infinities of IEEE doubles are not modelled, except where a
    division by zero is written out), apart from the mean and the standard deviation
    that decide the zero test of the z-scores, which are left to the library;
  \<^item> a DataFrame is a list of rows together with the presence of the two tracked
    indicator columns; the identifying columns are always present;
  \<^item> a raised Python exception is the \<open>Inl\<close> branch of a sum;
  \<^item> \<open>datetime.now()\<close> is a clock that is read through a counter.
\<close>

subsection \<open>Dates\<close>

record date =
  year :: int
  month :: nat
  day :: nat

record datetime =
  dt_date :: date
  dt_seconds :: nat

definition date_key :: "date \<Rightarrow> int \<times> nat \<times> nat" where
  "date_key d = (year d, month d, day d)"

definition is_leap :: "int \<Rightarrow> bool" where
  "is_leap y = (y mod 4 = 0 \<and> (y mod 100 \<noteq> 0 \<or> y mod 400 = 0))"

definition days_in_month :: "int \<Rightarrow> nat \<Rightarrow> nat" where
  "days_in_month y m =
     (if m = 2 then (if is_leap y then 29 else 28)
      else if m = 4 \<or> m = 6 \<or> m = 9 \<or> m = 11 then 30 else 31)"

definition days_before_year :: "int \<Rightarrow> int" where
  "days_before_year y = (let p = y - 1 in p * 365 + p div 4 - p div 100 + p div 400)"

definition days_before_month :: "int \<Rightarrow> nat \<Rightarrow> nat" where
  "days_before_month y m = sum_list (map (days_in_month y) [1..<m])"

definition toordinal :: "date \<Rightarrow> int" where
  "toordinal d = days_before_year (year d) + int (days_before_month (year d) (month d)) + int (day d)"

text \<open>
  \<open>(datetime.now() - latest_date).days\<close>: the reference dates are midnights, so the
  floor of the difference in days is the difference of the two day numbers.
\<close>

definition days_between :: "datetime \<Rightarrow> date \<Rightarrow> int" where
  "days_between now d = toordinal (dt_date now) - toordinal d"

text \<open>\<open>ts + pd.DateOffset(months=k)\<close>: the day is cut back to the end of the target month.\<close>

definition add_months :: "date \<Rightarrow> nat \<Rightarrow> date" where
  "add_months d k =
     (let t = year d * 12 + int (month d) - 1 + int k;
          y = t div 12;
          m = nat (t mod 12) + 1
      in \<lparr>year = y, month = m, day = min (day d) (days_in_month y m)\<rparr>)"

definition replace_day :: "date \<Rightarrow> nat \<Rightarrow> date" where
  "replace_day d n = d\<lparr>day := n\<rparr>"

subsection \<open>The fact relation\<close>

record row =
  indicator_key :: string
  country_code :: string
  reference_date :: date
  reference_year :: int
  reference_month :: int
  unemployment_rate_pct :: "real option"
  inflation_rate_mom_pct :: "real option"

text \<open>
  \<open>has_unemployment\<close> and \<open>has_inflation\<close> say whether the column is in
  \<open>df.columns\<close>; the cells of an absent column are never read.
\<close>

record frame =
  has_unemployment :: bool
  has_inflation :: bool
  rows :: "row list"

datatype error = KeyError string | ValueError string

text \<open>\<open>Series.unique()\<close>: the distinct values in order of first appearance.\<close>

fun unique :: "'a list \<Rightarrow> 'a list" where
  "unique [] = []"
| "unique (x # xs) = x # unique (filter (\<lambda>y. y \<noteq> x) xs)"

definition country_rows :: "frame \<Rightarrow> string \<Rightarrow> row list" where
  "country_rows df c = filter (\<lambda>r. country_code r = c) (rows df)"

definition sort_values :: "row list \<Rightarrow> row list" where
  "sort_values rs = sort_key (\<lambda>r. date_key (reference_date r)) rs"

definition column :: "frame \<Rightarrow> string \<Rightarrow> row list \<Rightarrow> real option list option" where
  "column df c rs =
     (if c = ''unemployment_rate_pct'' \<and> has_unemployment df
        then Some (map unemployment_rate_pct rs)
      else if c = ''inflation_rate_mom_pct'' \<and> has_inflation df
        then Some (map inflation_rate_mom_pct rs)
      else None)"

definition dropna :: "real option list \<Rightarrow> real list" where
  "dropna col = concat (map (\<lambda>v. case v of None \<Rightarrow> [] | Some x \<Rightarrow> [x]) col)"

definition mean :: "real list \<Rightarrow> real" where
  "mean xs = sum_list xs / real (length xs)"

subsection \<open>Python dictionaries with string keys\<close>

type_synonym scores = "(string \<times> real) list"

definition dict_set :: "scores \<Rightarrow> string \<Rightarrow> real \<Rightarrow> scores" where
  "dict_set d k v = (if k \<in> fst ` set d then map (\<lambda>(k', v'). if k' = k then (k', v) else (k', v')) d
                     else d @ [(k, v)])"

definition dict_get :: "scores \<Rightarrow> string \<Rightarrow> real \<Rightarrow> real" where
  "dict_get d k dflt = (case map_of d k of None \<Rightarrow> dflt | Some v \<Rightarrow> v)"

definition dict_values :: "scores \<Rightarrow> real list" where
  "dict_values d = map snd d"

subsection \<open>Data quality scoring (py_data_quality_scores.py)\<close>

definition EXPECTED_UNEMPLOYMENT_MIN :: real where "EXPECTED_UNEMPLOYMENT_MIN = 0"
definition EXPECTED_UNEMPLOYMENT_MAX :: real where "EXPECTED_UNEMPLOYMENT_MAX = 30"
definition EXPECTED_INFLATION_MIN :: real where "EXPECTED_INFLATION_MIN = - 5"
definition EXPECTED_INFLATION_MAX :: real where "EXPECTED_INFLATION_MAX = 20"
definition TIMELINESS_THRESHOLD_DAYS :: int where "TIMELINESS_THRESHOLD_DAYS = 90"

text \<open>\<open>df[col].notna().mean() * 100\<close>\<close>

definition notna_pct :: "real option list \<Rightarrow> real" where
  "notna_pct col = real (length (filter (\<lambda>v. v \<noteq> None) col)) / real (length col) * 100"

fun completeness_loop :: "frame \<Rightarrow> row list \<Rightarrow> scores \<Rightarrow> string list \<Rightarrow> scores" where
  "completeness_loop df rs sc [] = sc"
| "completeness_loop df rs sc (col # cols) =
     (case column df col rs of
        Some cells \<Rightarrow> completeness_loop df rs (dict_set sc (col @ ''_completeness'') (notna_pct cells)) cols
      | None \<Rightarrow> completeness_loop df rs sc cols)"

definition calculate_completeness :: "frame \<Rightarrow> row list \<Rightarrow> string list \<Rightarrow> scores" where
  "calculate_completeness df rs columns =
     (let sc = completeness_loop df rs [] columns
      in if sc \<noteq> [] then dict_set sc ''overall_completeness'' (mean (dict_values sc))
         else dict_set sc ''overall_completeness'' 0)"

record timeliness =
  t_timeliness_score :: real
  t_days_since_latest :: "int option"
  t_latest_data_date :: "date option"

text \<open>
  \<open>latest_date\<close> is the greatest reference date of the country's rows. The
  \<open>reference_date\<close> column is always present and never NaT in this model, so the two
  early returns of the source are the empty-list case only.
\<close>

definition max_date :: "date list \<Rightarrow> date option" where
  "max_date ds = (case ds of [] \<Rightarrow> None
                  | d # ds' \<Rightarrow> Some (fold (\<lambda>a b. if date_key b < date_key a then a else b) ds' d))"

definition calculate_timeliness :: "datetime \<Rightarrow> row list \<Rightarrow> timeliness" where
  "calculate_timeliness now rs =
     (case max_date (map reference_date rs) of
        None \<Rightarrow> \<lparr>t_timeliness_score = 0, t_days_since_latest = None, t_latest_data_date = None\<rparr>
      | Some latest_date \<Rightarrow>
          (let days_since_latest = days_between now latest_date;
               timeliness_score =
                 (if days_since_latest \<le> TIMELINESS_THRESHOLD_DAYS then 100
                  else (let months_late = real_of_int (days_since_latest - TIMELINESS_THRESHOLD_DAYS) / 30
                        in max 0 (100 - months_late * 10)))
           in \<lparr>t_timeliness_score = timeliness_score,
                t_days_since_latest = Some days_since_latest,
                t_latest_data_date = Some latest_date\<rparr>))"

text \<open>\<open>((s >= lo) & (s <= hi)).mean() * 100\<close> on a non-empty NaN-free series.\<close>

definition valid_pct :: "real \<Rightarrow> real \<Rightarrow> real list \<Rightarrow> real" where
  "valid_pct lo hi xs = real (length (filter (\<lambda>x. lo \<le> x \<and> x \<le> hi) xs)) / real (length xs) * 100"

definition calculate_validity :: "frame \<Rightarrow> row list \<Rightarrow> scores" where
  "calculate_validity df rs =
     (let v0 = [];
          v1 = (case column df ''unemployment_rate_pct'' rs of
                  Some cells \<Rightarrow>
                    (let unemp = dropna cells
                     in if length unemp > 0
                        then dict_set v0 ''unemployment_validity''
                               (valid_pct EXPECTED_UNEMPLOYMENT_MIN EXPECTED_UNEMPLOYMENT_MAX unemp)
                        else v0)
                | None \<Rightarrow> v0);
          v2 = (case column df ''inflation_rate_mom_pct'' rs of
                  Some cells \<Rightarrow>
                    (let infl = dropna cells
                     in if length infl > 0
                        then dict_set v1 ''inflation_validity''
                               (valid_pct EXPECTED_INFLATION_MIN EXPECTED_INFLATION_MAX infl)
                        else v1)
                | None \<Rightarrow> v1)
      in if v2 \<noteq> [] then dict_set v2 ''overall_validity'' (mean (dict_values v2))
         else dict_set v2 ''overall_validity'' 100)"

text \<open>\<open>(s.diff() == 0).sum()\<close>: the number of positions whose value equals its predecessor.\<close>

fun consecutive_same :: "real list \<Rightarrow> nat" where
  "consecutive_same (x # y # xs) = (if y - x = 0 then 1 else 0) + consecutive_same (y # xs)"
| "consecutive_same _ = 0"

definition series_consistency :: "real list \<Rightarrow> real" where
  "series_consistency xs =
     (let pct_repeated = real (consecutive_same xs) / real (length xs) * 100
      in max 0 (100 - pct_repeated * 2))"

definition calculate_consistency :: "frame \<Rightarrow> row list \<Rightarrow> scores" where
  "calculate_consistency df rs =
     (let c0 = [];
          c1 = (case column df ''unemployment_rate_pct'' rs of
                  Some cells \<Rightarrow>
                    (let unemp = dropna cells
                     in if length unemp > 10
                        then dict_set c0 ''unemployment_consistency'' (series_consistency unemp)
                        else c0)
                | None \<Rightarrow> c0);
          c2 = (case column df ''inflation_rate_mom_pct'' rs of
                  Some cells \<Rightarrow>
                    (let infl = dropna cells
                     in if length infl > 10
                        then dict_set c1 ''inflation_consistency'' (series_consistency infl)
                        else c1)
                | None \<Rightarrow> c1)
      in if c2 \<noteq> [] then dict_set c2 ''overall_consistency'' (mean (dict_values c2))
         else dict_set c2 ''overall_consistency'' 100)"

definition quality_grade_of :: "real \<Rightarrow> string" where
  "quality_grade_of overall_score =
     (if overall_score \<ge> 90 then ''A''
      else if overall_score \<ge> 80 then ''B''
      else if overall_score \<ge> 70 then ''C''
      else if overall_score \<ge> 60 then ''D''
      else ''F'')"

record quality_record =
  q_country_code :: string
  total_records :: nat
  completeness_score :: real
  unemployment_completeness :: real
  inflation_completeness :: real
  timeliness_score :: real
  days_since_latest_data :: "int option"
  latest_data_date :: "date option"
  validity_score :: real
  unemployment_validity :: real
  inflation_validity :: real
  consistency_score :: real
  overall_quality_score :: real
  quality_grade :: string
  scored_at :: datetime
  scoring_model_version :: string
  primary_issue :: string
  requires_attention :: bool

definition primary_issue_of :: "real \<Rightarrow> real \<Rightarrow> real \<Rightarrow> real \<Rightarrow> string" where
  "primary_issue_of c t v k =
     (if c < 80 then ''completeness''
      else if t < 80 then ''timeliness''
      else if v < 80 then ''validity''
      else if k < 80 then ''consistency''
      else ''none'')"

text \<open>
  One pass of the loop body for one country. The quality scorer takes the country's
  rows in the order of the input relation: it does not sort them. \<open>now1\<close> is the clock
  reading inside \<open>calculate_timeliness\<close>, \<open>now2\<close> the one stored in \<open>scored_at\<close>.
  The two columns added after the loop (\<open>primary_issue\<close>, \<open>requires_attention\<close>) are
  functions of the record's own fields and are filled in here.
\<close>

definition score_country :: "datetime \<Rightarrow> datetime \<Rightarrow> frame \<Rightarrow> string \<Rightarrow> quality_record" where
  "score_country now1 now2 df c =
     (let country_data = country_rows df c;
          completeness = calculate_completeness df country_data
                           [''unemployment_rate_pct'', ''inflation_rate_mom_pct''];
          timeliness = calculate_timeliness now1 country_data;
          validity = calculate_validity df country_data;
          consistency = calculate_consistency df country_data;
          overall_score =
            0.30 * dict_get completeness ''overall_completeness'' 0 +
            0.25 * t_timeliness_score timeliness +
            0.25 * dict_get validity ''overall_validity'' 0 +
            0.20 * dict_get consistency ''overall_consistency'' 0
      in \<lparr>q_country_code = c,
          total_records = length country_data,
          completeness_score = dict_get completeness ''overall_completeness'' 0,
          unemployment_completeness = dict_get completeness ''unemployment_rate_pct_completeness'' 0,
          inflation_completeness = dict_get completeness ''inflation_rate_mom_pct_completeness'' 0,
          timeliness_score = t_timeliness_score timeliness,
          days_since_latest_data = t_days_since_latest timeliness,
          latest_data_date = t_latest_data_date timeliness,
          validity_score = dict_get validity ''overall_validity'' 0,
          unemployment_validity = dict_get validity ''unemployment_validity'' 0,
          inflation_validity = dict_get validity ''inflation_validity'' 0,
          consistency_score = dict_get consistency ''overall_consistency'' 0,
          overall_quality_score = overall_score,
          quality_grade = quality_grade_of overall_score,
          scored_at = now2,
          scoring_model_version = ''1.0.0'',
          primary_issue =
            primary_issue_of (dict_get completeness ''overall_completeness'' 0)
              (t_timeliness_score timeliness)
              (dict_get validity ''overall_validity'' 0)
              (dict_get consistency ''overall_consistency'' 0),
          requires_attention = (overall_score < 70)\<rparr>)"

text \<open>The loop over the countries; the \<open>k\<close>-th reading of the clock is \<open>clock k\<close>.\<close>

fun score_countries :: "(nat \<Rightarrow> datetime) \<Rightarrow> nat \<Rightarrow> frame \<Rightarrow> string list \<Rightarrow> quality_record list" where
  "score_countries clock k df [] = []"
| "score_countries clock k df (c # cs) =
     score_country (clock k) (clock (k + 1)) df c # score_countries clock (k + 2) df cs"

definition quality_model :: "(nat \<Rightarrow> datetime) \<Rightarrow> frame \<Rightarrow> quality_record list" where
  "quality_model clock df = score_countries clock 0 df (unique (map country_code (rows df)))"

subsection \<open>Anomaly detection (py_anomaly_detection.py)\<close>

definition Z_SCORE_THRESHOLD :: real where "Z_SCORE_THRESHOLD = 3.0"
definition IQR_MULTIPLIER :: real where "IQR_MULTIPLIER = 1.5"
definition RATE_OF_CHANGE_THRESHOLD :: real where "RATE_OF_CHANGE_THRESHOLD = 0.5"

text \<open>
  \<open>Series.mean()\<close> and \<open>Series.std()\<close> skip missing cells; the standard deviation is
  the sample one (\<open>ddof=1\<close>) and is NaN when fewer than two values remain.
\<close>

definition series_mean :: "real option list \<Rightarrow> real option" where
  "series_mean series = (let xs = dropna series in if xs = [] then None else Some (mean xs))"

definition std :: "real list \<Rightarrow> real option" where
  "std xs =
     (if length xs < 2 then None
      else Some (sqrt (sum_list (map (\<lambda>x. (x - mean xs)\<^sup>2) xs) / real (length xs - 1))))"

text \<open>
  What the anomaly detector leaves to pandas. \<open>Series.mean()\<close> and \<open>Series.std()\<close> are
  computed in float64: the sums are rounded, so the mean of a series of equal values
  need not be that value and its standard deviation need not be exactly zero (for
  twelve readings of 6.1 the computed mean differs from 6.1 in the last place and the
  standard deviation is about \<open>9.3e-16\<close>). Since the source tests \<open>std == 0\<close>, the two results are parameters of the
  model, together with the fill method of \<open>pct_change\<close>. \<open>exact_arithmetic\<close> is the
  library that computes both without rounding.
\<close>

record pandas =
  pct_change_pad :: bool
  Series_mean :: "real option list \<Rightarrow> real option"
  Series_std :: "real option list \<Rightarrow> real option"

definition exact_arithmetic :: "bool \<Rightarrow> pandas" where
  "exact_arithmetic pad =
     \<lparr>pct_change_pad = pad, Series_mean = series_mean, Series_std = (\<lambda>series. std (dropna series))\<rparr>"

definition calculate_z_scores :: "pandas \<Rightarrow> real option list \<Rightarrow> real option list" where
  "calculate_z_scores lib series =
     (let m = Series_mean lib series;
          s = Series_std lib series
      in if s = Some 0 \<or> s = None then map (\<lambda>_. Some 0) series
         else map (\<lambda>v. case (v, m, s) of
                          (Some x, Some mu, Some sd) \<Rightarrow> Some ((x - mu) / sd)
                        | _ \<Rightarrow> None) series)"

text \<open>
  \<open>Series.quantile(q)\<close>: linear interpolation between the two order statistics around
  position \<open>q * (n - 1)\<close> of the non-missing values; NaN for an empty series.
\<close>

definition quantile :: "real list \<Rightarrow> real \<Rightarrow> real option" where
  "quantile xs q =
     (if xs = [] then None
      else (let v = sort xs;
                p = q * real (length v - 1);
                lo = nat \<lfloor>p\<rfloor>;
                frac = p - real lo
            in Some (if lo + 1 < length v then v ! lo + (v ! (lo + 1) - v ! lo) * frac
                     else v ! (length v - 1))))"

definition detect_iqr_outliers :: "real option list \<Rightarrow> bool list" where
  "detect_iqr_outliers series =
     (case (quantile (dropna series) 0.25, quantile (dropna series) 0.75) of
        (Some q1, Some q3) \<Rightarrow>
          (let iqr = q3 - q1;
               lower_bound = q1 - IQR_MULTIPLIER * iqr;
               upper_bound = q3 + IQR_MULTIPLIER * iqr
           in map (\<lambda>v. case v of None \<Rightarrow> False | Some x \<Rightarrow> x < lower_bound \<or> x > upper_bound) series)
      | _ \<Rightarrow> map (\<lambda>_. False) series)"

text \<open>
  \<open>Series.pct_change().abs()\<close>. With \<open>pad\<close> (the default fill method of pandas 1.x and
  2.x) a missing cell first takes the last value before it; without it (pandas 3) the
  cells are used as they are. The quotient is a float division: \<open>0/0\<close> is NaN and
  \<open>x/0\<close> is infinite for \<open>x \<noteq> 0\<close>.
\<close>

datatype fnum = NaN | PosInf | Fin real

fun ffill :: "real option \<Rightarrow> real option list \<Rightarrow> real option list" where
  "ffill prev [] = []"
| "ffill prev (None # vs) = prev # ffill prev vs"
| "ffill prev (Some x # vs) = Some x # ffill (Some x) vs"

fun abs_pct :: "real option \<Rightarrow> real option \<Rightarrow> fnum" where
  "abs_pct (Some a) (Some b) =
     (if a = 0 then (if b = 0 then NaN else PosInf) else Fin \<bar>b / a - 1\<bar>)"
| "abs_pct _ _ = NaN"

fun pct_change_from :: "real option \<Rightarrow> real option list \<Rightarrow> fnum list" where
  "pct_change_from prev [] = []"
| "pct_change_from prev (v # vs) = abs_pct prev v # pct_change_from v vs"

definition pct_change_abs :: "bool \<Rightarrow> real option list \<Rightarrow> fnum list" where
  "pct_change_abs pad series = pct_change_from None (if pad then ffill None series else series)"

fun fnum_gt :: "fnum \<Rightarrow> real \<Rightarrow> bool" where
  "fnum_gt NaN t = False"
| "fnum_gt PosInf t = True"
| "fnum_gt (Fin x) t = (x > t)"

definition detect_rate_of_change_anomalies :: "bool \<Rightarrow> real option list \<Rightarrow> real \<Rightarrow> bool list" where
  "detect_rate_of_change_anomalies pad series threshold =
     map (\<lambda>p. fnum_gt p threshold) (pct_change_abs pad series)"

text \<open>The three derived columns of one indicator, one cell per row of the country.\<close>

record detection =
  z_score :: "real option"
  iqr_outlier :: bool
  roc_anomaly :: bool

definition detect_indicator :: "pandas \<Rightarrow> real option list \<Rightarrow> detection list" where
  "detect_indicator lib cells =
     (if length (dropna cells) > 10
      then map (\<lambda>(z, i, r). \<lparr>z_score = z, iqr_outlier = i, roc_anomaly = r\<rparr>)
             (zip (calculate_z_scores lib cells)
                (zip (detect_iqr_outliers cells)
                   (detect_rate_of_change_anomalies (pct_change_pad lib) cells
                      RATE_OF_CHANGE_THRESHOLD)))
      else map (\<lambda>_. \<lparr>z_score = None, iqr_outlier = False, roc_anomaly = False\<rparr>) cells)"

text \<open>
  A row of \<open>country_data\<close> after the loop body: the derived columns of an indicator
  exist only if the indicator's column is in the input.
\<close>

record work_row =
  w_row :: row
  w_unemployment :: "detection option"
  w_inflation :: "detection option"

definition detect_country :: "pandas \<Rightarrow> frame \<Rightarrow> string \<Rightarrow> work_row list" where
  "detect_country lib df c =
     (let country_data = sort_values (country_rows df c);
          unemp = (case column df ''unemployment_rate_pct'' country_data of
                     Some cells \<Rightarrow> map Some (detect_indicator lib cells)
                   | None \<Rightarrow> map (\<lambda>_. None) country_data);
          infl = (case column df ''inflation_rate_mom_pct'' country_data of
                     Some cells \<Rightarrow> map Some (detect_indicator lib cells)
                   | None \<Rightarrow> map (\<lambda>_. None) country_data)
      in map (\<lambda>(r, u, i). \<lparr>w_row = r, w_unemployment = u, w_inflation = i\<rparr>)
           (zip country_data (zip unemp infl)))"

record anomaly_row = row +
  unemployment_z_score :: "real option"
  inflation_z_score :: "real option"
  is_unemployment_anomaly :: bool
  is_inflation_anomaly :: bool
  is_any_anomaly :: bool
  anomaly_severity_score :: real

text \<open>\<open>(z.abs() > Z_SCORE_THRESHOLD)\<close>: a comparison with NaN is false.\<close>

definition z_exceeds :: "real option \<Rightarrow> bool" where
  "z_exceeds z = (case z of None \<Rightarrow> False | Some x \<Rightarrow> \<bar>x\<bar> > Z_SCORE_THRESHOLD)"

definition composite_flag :: "detection \<Rightarrow> bool" where
  "composite_flag d = (z_exceeds (z_score d) \<or> iqr_outlier d \<or> roc_anomaly d)"

definition clip :: "real \<Rightarrow> real \<Rightarrow> real \<Rightarrow> real" where
  "clip lo hi x = min hi (max lo x)"

definition severity_term :: "real option \<Rightarrow> real" where
  "severity_term z = clip 0 5 (case z of None \<Rightarrow> 0 | Some x \<Rightarrow> \<bar>x\<bar>) * 10"

text \<open>
  The composite columns are computed on the concatenated frame by reading
  \<open>result_df['unemployment_z_score']\<close> and its siblings; reading a column that no
  country frame carries raises KeyError.
\<close>

definition finalize_row :: "work_row \<Rightarrow> error + anomaly_row" where
  "finalize_row w =
     (case w_unemployment w of
        None \<Rightarrow> Inl (KeyError ''unemployment_z_score'')
      | Some u \<Rightarrow>
          (case w_inflation w of
             None \<Rightarrow> Inl (KeyError ''inflation_z_score'')
           | Some i \<Rightarrow>
               Inr (row.extend (w_row w)
                     \<lparr>unemployment_z_score = z_score u,
                      inflation_z_score = z_score i,
                      is_unemployment_anomaly = composite_flag u,
                      is_inflation_anomaly = composite_flag i,
                      is_any_anomaly = (composite_flag u \<or> composite_flag i),
                      anomaly_severity_score =
                        clip 0 100 (severity_term (z_score u) + severity_term (z_score i))\<rparr>)))"

fun collect :: "(error + 'a) list \<Rightarrow> error + 'a list" where
  "collect [] = Inr []"
| "collect (Inl e # xs) = Inl e"
| "collect (Inr x # xs) = (case collect xs of Inl e \<Rightarrow> Inl e | Inr ys \<Rightarrow> Inr (x # ys))"

definition anomaly_model :: "pandas \<Rightarrow> frame \<Rightarrow> error + anomaly_row list" where
  "anomaly_model lib df =
     (let results = map (detect_country lib df) (unique (map country_code (rows df)))
      in if results = [] then Inl (ValueError ''No objects to concatenate'')
         else collect (map finalize_row (concat results)))"

subsection \<open>Unemployment forecasting (py_unemployment_forecast.py)\<close>

definition FORECAST_HORIZON :: nat where "FORECAST_HORIZON = 6"
definition MIN_HISTORY_MONTHS :: nat where "MIN_HISTORY_MONTHS = 24"

text \<open>Float arithmetic with NaN: an operation with a NaN operand is NaN.\<close>

definition fadd :: "real option \<Rightarrow> real option \<Rightarrow> real option" where
  "fadd a b = (case (a, b) of (Some x, Some y) \<Rightarrow> Some (x + y) | _ \<Rightarrow> None)"

definition fsub :: "real option \<Rightarrow> real option \<Rightarrow> real option" where
  "fsub a b = (case (a, b) of (Some x, Some y) \<Rightarrow> Some (x - y) | _ \<Rightarrow> None)"

definition fmul :: "real option \<Rightarrow> real option \<Rightarrow> real option" where
  "fmul a b = (case (a, b) of (Some x, Some y) \<Rightarrow> Some (x * y) | _ \<Rightarrow> None)"

text \<open>
  The three methods are called on \<open>unemp_series\<close>, the country's unemployment cells
  after \<open>dropna()\<close>, so the first two take a list of numbers; the regression keeps the
  source's own NaN mask and takes cells.
\<close>

definition last_or_nan :: "real list \<Rightarrow> real option" where
  "last_or_nan series = (if length series > 0 then Some (last series) else None)"

definition exponential_smoothing :: "real list \<Rightarrow> real \<Rightarrow> real option" where
  "exponential_smoothing series alpha =
     (if length series < 2 then last_or_nan series
      else Some (fold (\<lambda>value result. alpha * value + (1 - alpha) * result) (tl series) (hd series)))"

definition holt_step :: "real \<Rightarrow> real \<Rightarrow> real \<Rightarrow> real \<times> real \<Rightarrow> real \<times> real" where
  "holt_step alpha beta value lt =
     (let last_level = fst lt;
          level = alpha * value + (1 - alpha) * (fst lt + snd lt);
          trend = beta * (level - last_level) + (1 - beta) * snd lt
      in (level, trend))"

definition holt_linear_trend :: "real list \<Rightarrow> real \<Rightarrow> real \<Rightarrow> real option \<times> real" where
  "holt_linear_trend series alpha beta =
     (if length series < 3 then (last_or_nan series, 0)
      else (let level = series ! 0;
                trend = series ! 1 - series ! 0;
                lt = fold (holt_step alpha beta) (tl series) (level, trend)
            in (Some (fst lt), snd lt)))"

text \<open>The positions and values that survive the mask \<open>~np.isnan(y)\<close>.\<close>

definition masked :: "real option list \<Rightarrow> (real \<times> real) list" where
  "masked series =
     concat (map (\<lambda>(i, v). case v of None \<Rightarrow> [] | Some y \<Rightarrow> [(real i, y)])
               (zip [0..<length series] series))"

definition linear_regression_forecast :: "real option list \<Rightarrow> nat \<Rightarrow> real option list" where
  "linear_regression_forecast series periods_ahead =
     (if length series < 3
      then replicate periods_ahead (if length series > 0 then last series else None)
      else (let xy = masked series; x = map fst xy; y = map snd xy
            in if length x < 3 then replicate periods_ahead (last_or_nan (dropna series))
               else (let x_mean = mean x;
                         y_mean = mean y;
                         slope = sum_list (map (\<lambda>(a, b). (a - x_mean) * (b - y_mean)) xy)
                                   / sum_list (map (\<lambda>a. (a - x_mean)\<^sup>2) x);
                         intercept = y_mean - slope * x_mean;
                         future_x = [length series..<length series + periods_ahead]
                     in map (\<lambda>fx. Some (intercept + slope * real fx)) future_x)))"

text \<open>\<open>Series.diff().dropna()\<close> of a NaN-free series.\<close>

fun diff :: "real list \<Rightarrow> real list" where
  "diff (x # y # xs) = (y - x) # diff (y # xs)"
| "diff _ = []"

definition calculate_prediction_interval ::
    "real list \<Rightarrow> real option \<Rightarrow> real \<Rightarrow> real option \<times> real option" where
  "calculate_prediction_interval historical_values forecast confidence =
     (if length historical_values < 5 then (fsub forecast (Some 1), fadd forecast (Some 1))
      else (let changes = diff historical_values;
                sd = std changes;
                z = (if confidence = 0.95 then 1.96 else 1.645);
                margin = fmul (fmul (Some z) sd)
                              (Some (sqrt (1 + 1 / real (length historical_values))))
            in (fsub forecast margin, fadd forecast margin)))"

text \<open>\<open>np.nanmean\<close>: the mean of the entries that are not NaN; NaN if there is none.\<close>

definition nanmean :: "real option list \<Rightarrow> real option" where
  "nanmean vs = (let xs = dropna vs in if xs = [] then None else Some (mean xs))"

record forecast_record =
  f_country_code :: string
  forecast_date :: "date option"
  forecast_horizon_months :: nat
  last_actual_date :: "date option"
  last_actual_value :: real
  forecast_exp_smoothing :: "real option"
  forecast_holt :: "real option"
  forecast_linear_reg :: "real option"
  forecast_ensemble :: "real option"
  prediction_interval_lower :: "real option"
  prediction_interval_upper :: "real option"
  forecast_generated_at :: datetime
  model_version :: string
  min_training_samples :: nat
  prediction_interval_width :: "real option"
  forecast_confidence :: string

text \<open>
  \<open>country_data.set_index('reference_date')['unemployment_rate_pct'].dropna()\<close>:
  the dated non-missing cells, in the order of the sorted rows.
\<close>

definition unemployment_series :: "row list \<Rightarrow> (date \<times> real) list" where
  "unemployment_series rs =
     concat (map (\<lambda>r. case unemployment_rate_pct r of None \<Rightarrow> [] | Some x \<Rightarrow> [(reference_date r, x)]) rs)"

text \<open>\<open>np.where(w < 1.0, 'high', np.where(w < 2.0, 'medium', 'low'))\<close>; NaN compares false.\<close>

definition confidence_of :: "real option \<Rightarrow> string" where
  "confidence_of w =
     (case w of None \<Rightarrow> ''low''
      | Some x \<Rightarrow> if x < 1.0 then ''high'' else if x < 2.0 then ''medium'' else ''low'')"

text \<open>
  The body of the inner loop for index \<open>i\<close> (horizon \<open>i + 1\<close>). The two columns added
  after the loop (\<open>prediction_interval_width\<close>, \<open>forecast_confidence\<close>) are functions
  of the row's own bounds and are filled in here.
\<close>

definition forecast_row ::
    "datetime \<Rightarrow> string \<Rightarrow> (date \<times> real) list \<Rightarrow> real option \<Rightarrow> real option \<Rightarrow> real
       \<Rightarrow> real option list \<Rightarrow> nat \<Rightarrow> forecast_record" where
  "forecast_row now c unemp_series es_forecast level trend lr_forecasts i =
     (let values = map snd unemp_series;
          last_date = max_date (map fst unemp_series);
          last_value = last values;
          forecast_date = map_option (\<lambda>d. replace_day (add_months d (i + 1)) 1) last_date;
          holt_forecast = fadd level (Some (real (i + 1) * trend));
          methods_forecasts =
            [fadd es_forecast (Some (real i * trend)), holt_forecast, lr_forecasts ! i];
          ensemble_forecast = nanmean methods_forecasts;
          lu = calculate_prediction_interval values ensemble_forecast 0.95
      in \<lparr>f_country_code = c,
          forecast_date = forecast_date,
          forecast_horizon_months = i + 1,
          last_actual_date = last_date,
          last_actual_value = last_value,
          forecast_exp_smoothing = fadd es_forecast (Some (real i * trend)),
          forecast_holt = holt_forecast,
          forecast_linear_reg = lr_forecasts ! i,
          forecast_ensemble = ensemble_forecast,
          prediction_interval_lower = fst lu,
          prediction_interval_upper = snd lu,
          forecast_generated_at = now,
          model_version = ''1.0.0'',
          min_training_samples = length unemp_series,
          prediction_interval_width = fsub (snd lu) (fst lu),
          forecast_confidence = confidence_of (fsub (snd lu) (fst lu))\<rparr>)"

text \<open>
  The six rows of one eligible country; row \<open>i\<close> reads the clock for the
  \<open>(k + i)\<close>-th time.
\<close>

definition country_forecasts ::
    "(nat \<Rightarrow> datetime) \<Rightarrow> nat \<Rightarrow> string \<Rightarrow> (date \<times> real) list \<Rightarrow> forecast_record list" where
  "country_forecasts clock k c unemp_series =
     (let values = map snd unemp_series;
          es_forecast = exponential_smoothing values 0.3;
          lt = holt_linear_trend values 0.3 0.1;
          lr_forecasts = linear_regression_forecast (map Some values) FORECAST_HORIZON
      in map (\<lambda>i. forecast_row (clock (k + i)) c unemp_series es_forecast (fst lt) (snd lt) lr_forecasts i)
           [0..<FORECAST_HORIZON])"

fun forecast_countries ::
    "(nat \<Rightarrow> datetime) \<Rightarrow> nat \<Rightarrow> frame \<Rightarrow> string list \<Rightarrow> error + forecast_record list" where
  "forecast_countries clock k df [] = Inr []"
| "forecast_countries clock k df (c # cs) =
     (let country_data = sort_values (country_rows df c)
      in if \<not> has_unemployment df then Inl (KeyError ''unemployment_rate_pct'')
         else (let unemp_series = unemployment_series country_data
               in if length unemp_series < MIN_HISTORY_MONTHS
                  then forecast_countries clock k df cs
                  else (case forecast_countries clock (k + FORECAST_HORIZON) df cs of
                          Inl e \<Rightarrow> Inl e
                        | Inr rest \<Rightarrow> Inr (country_forecasts clock k c unemp_series @ rest))))"

definition forecast_model :: "(nat \<Rightarrow> datetime) \<Rightarrow> frame \<Rightarrow> error + forecast_record list" where
  "forecast_model clock df = forecast_countries clock 0 df (unique (map country_code (rows df)))"

text \<open>The rows of a run; a run that raised has none.\<close>

fun rows_of :: "error + 'a list \<Rightarrow> 'a list" where
  "rows_of (Inl e) = []"
| "rows_of (Inr rs) = rs"

subsection \<open>Concrete inputs\<close>

definition mk_row :: "string \<Rightarrow> int \<Rightarrow> nat \<Rightarrow> real option \<Rightarrow> real option \<Rightarrow> row" where
  "mk_row c y m u i =
     \<lparr>indicator_key = c, country_code = c,
      reference_date = \<lparr>year = y, month = m, day = 1\<rparr>,
      reference_year = y, reference_month = int m,
      unemployment_rate_pct = u, inflation_rate_mom_pct = i\<rparr>"

definition grades_frame :: frame where
  "grades_frame =
     \<lparr>has_unemployment = True, has_inflation = True,
      rows = [mk_row ''AT'' 2024 1 (Some 5) (Some 0.2),
              mk_row ''BE'' 2024 1 (Some 5) (Some 100),
              mk_row ''CZ'' 2024 1 (Some 50) (Some 100),
              mk_row ''DE'' 2024 1 (Some 50) None,
              mk_row ''FR'' 2020 1 (Some 50) None]\<rparr>"

definition fixed_clock :: "int \<Rightarrow> nat \<Rightarrow> nat \<Rightarrow> nat \<Rightarrow> datetime" where
  "fixed_clock y m d k = \<lparr>dt_date = \<lparr>year = y, month = m, day = d\<rparr>, dt_seconds = k\<rparr>"

definition alternating_rows :: "row list" where
  "alternating_rows =
     map (\<lambda>m. mk_row ''DE'' 2023 m (Some (if odd m then 1 else 2)) None) [1..<13]"

definition sorted_frame :: frame where
  "sorted_frame = \<lparr>has_unemployment = True, has_inflation = True, rows = alternating_rows\<rparr>"

definition shuffled_frame :: frame where
  "shuffled_frame =
     \<lparr>has_unemployment = True, has_inflation = True,
      rows = filter (\<lambda>r. odd (month (reference_date r))) alternating_rows @
             filter (\<lambda>r. \<not> odd (month (reference_date r))) alternating_rows\<rparr>"

definition out_of_range_frame :: frame where
  "out_of_range_frame =
     \<lparr>has_unemployment = True, has_inflation = True,
      rows = [mk_row ''CZ'' 2024 1 (Some 50) (Some 100)]\<rparr>"

definition strip_quality :: "quality_record \<Rightarrow> quality_record" where
  "strip_quality r =
     r\<lparr>timeliness_score := 0, days_since_latest_data := None, overall_quality_score := 0,
       quality_grade := [], primary_issue := [], requires_attention := False,
       scored_at := \<lparr>dt_date = \<lparr>year = 0, month = 0, day = 0\<rparr>, dt_seconds = 0\<rparr>\<rparr>"

definition strip_forecast :: "forecast_record \<Rightarrow> forecast_record" where
  "strip_forecast r =
     r\<lparr>forecast_generated_at := \<lparr>dt_date = \<lparr>year = 0, month = 0, day = 0\<rparr>, dt_seconds = 0\<rparr>\<rparr>"




definition no_unemployment_frame :: frame where
  "no_unemployment_frame =
     \<lparr>has_unemployment = False, has_inflation = True,
      rows = [mk_row ''DE'' 2024 1 None (Some 0.2)]\<rparr>"

definition no_inflation_frame :: frame where
  "no_inflation_frame =
     \<lparr>has_unemployment = True, has_inflation = False,
      rows = [mk_row ''DE'' 2024 1 (Some 5) None]\<rparr>"

definition short_frame :: frame where
  "short_frame =
     \<lparr>has_unemployment = True, has_inflation = True,
      rows = map (\<lambda>m. mk_row ''DE'' 2024 m (Some (5 + real m)) (Some 0.2)) [1..<6]\<rparr>"

definition unemployment_cells :: "frame \<Rightarrow> string \<Rightarrow> real option list" where
  "unemployment_cells df c = map unemployment_rate_pct (sort_values (country_rows df c))"

definition inflation_cells :: "frame \<Rightarrow> string \<Rightarrow> real option list" where
  "inflation_cells df c = map inflation_rate_mom_pct (sort_values (country_rows df c))"

definition month_number :: "date \<Rightarrow> int" where
  "month_number d = year d * 12 + int (month d)"

definition spike_frame :: frame where
  "spike_frame =
     \<lparr>has_unemployment = True, has_inflation = True,
      rows = map (\<lambda>i. mk_row ''DE'' (2022 + int (i div 12)) (i mod 12 + 1)
                         (Some (if i = 23 then 300 else 0)) (Some 0.5)) [0..<24]\<rparr>"

(*DEFS_END*)

section \<open>Properties\<close>

subsection \<open>Quality grade\<close>

lemma score_countries_mem:
  "r \<in> set (score_countries clock k df cs) \<Longrightarrow> \<exists>n1 n2 c. c \<in> set cs \<and> r = score_country n1 n2 df c"
  by (induction cs arbitrary: k) (simp, fastforce)

lemma grade_of_score_country:
  "quality_grade (score_country n1 n2 df c) = quality_grade_of (overall_quality_score (score_country n1 n2 df c))"
  by (simp add: score_country_def Let_def)

lemma quality_model_grade:
  assumes "r \<in> set (quality_model clock df)"
  shows "quality_grade r = quality_grade_of (overall_quality_score r)"
proof -
  from assms obtain n1 n2 c where "r = score_country n1 n2 df c"
    unfolding quality_model_def by (blast dest: score_countries_mem)
  then show ?thesis by (simp add: grade_of_score_country)
qed

text \<open>
  C8. The grade of every quality record is the step function of its overall score with
  inclusive lower bounds 90, 80, 70 and 60: at least 90 is A, from 80 up to 90 is B,
  from 70 up to 80 is C, from 60 up to 70 is D, anything lower is F; 90.0 is graded A
  and 89.999 is graded B.
\<close>

theorem quality_grade_thresholds:
  "(\<forall>r \<in> set (quality_model clock df).
      (overall_quality_score r \<ge> 90 \<longrightarrow> quality_grade r = ''A'') \<and>
      (80 \<le> overall_quality_score r \<and> overall_quality_score r < 90 \<longrightarrow> quality_grade r = ''B'') \<and>
      (70 \<le> overall_quality_score r \<and> overall_quality_score r < 80 \<longrightarrow> quality_grade r = ''C'') \<and>
      (60 \<le> overall_quality_score r \<and> overall_quality_score r < 70 \<longrightarrow> quality_grade r = ''D'') \<and>
      (overall_quality_score r < 60 \<longrightarrow> quality_grade r = ''F'')) \<and>
   quality_grade_of 90.0 = ''A'' \<and> quality_grade_of 89.999 = ''B''"
proof -
  have "quality_grade_of 90.0 = ''A''" "quality_grade_of 89.999 = ''B''"
    by (simp_all add: quality_grade_of_def)
  moreover have "\<And>r. r \<in> set (quality_model clock df) \<Longrightarrow>
      quality_grade r = quality_grade_of (overall_quality_score r)"
    by (rule quality_model_grade)
  ultimately show ?thesis
    by (simp add: quality_grade_of_def)
qed

theorem quality_grade_thresholds_witness:
  "(let rs = quality_model (fixed_clock 2024 2 1) grades_frame in
     length rs = 5 \<and>
     overall_quality_score (rs ! 0) = 100 \<and> quality_grade (rs ! 0) = ''A'' \<and>
     overall_quality_score (rs ! 1) = 87.5 \<and> quality_grade (rs ! 1) = ''B'' \<and>
     overall_quality_score (rs ! 2) = 75 \<and> quality_grade (rs ! 2) = ''C'' \<and>
     overall_quality_score (rs ! 3) = 60 \<and> quality_grade (rs ! 3) = ''D'' \<and>
     overall_quality_score (rs ! 4) = 35 \<and> quality_grade (rs ! 4) = ''F'')"
proof -
  define rs where "rs = quality_model (fixed_clock 2024 2 1) grades_frame"
  have len: "length rs = 5" unfolding rs_def by code_simp
  have sc: "overall_quality_score (rs ! 0) = 100" "overall_quality_score (rs ! 1) = 87.5"
    "overall_quality_score (rs ! 2) = 75" "overall_quality_score (rs ! 3) = 60"
    "overall_quality_score (rs ! 4) = 35"
    unfolding rs_def by code_simp+
  have mem: "\<And>i. i < 5 \<Longrightarrow> rs ! i \<in> set rs" using len by simp
  note t = quality_grade_thresholds [of "fixed_clock 2024 2 1" grades_frame, folded rs_def, THEN conjunct1, rule_format]
  have "quality_grade (rs ! 0) = ''A''" using t [OF mem [of 0]] sc by simp
  moreover have "quality_grade (rs ! 1) = ''B''" using t [OF mem [of 1]] sc by simp
  moreover have "quality_grade (rs ! 2) = ''C''" using t [OF mem [of 2]] sc by simp
  moreover have "quality_grade (rs ! 3) = ''D''" using t [OF mem [of 3]] sc by simp
  moreover have "quality_grade (rs ! 4) = ''F''" using t [OF mem [of 4]] sc by simp
  ultimately show ?thesis using len sc unfolding rs_def [symmetric] Let_def by simp
qed

subsection \<open>Row order and the consistency score\<close>

text \<open>
  C9. The quality scorer takes a country's rows in the order of the input relation;
  unlike the anomaly detector and the forecast engine it never sorts them by
  \<open>reference_date\<close>. Two relations with the same rows, one of them already in date
  order, get the consistency scores 100 and 0.
\<close>

theorem consistency_depends_on_row_order:
  "mset (rows shuffled_frame) = mset (rows sorted_frame) \<and>
   sort_values (rows shuffled_frame) = rows sorted_frame \<and>
   map consistency_score (quality_model (fixed_clock 2024 2 1) sorted_frame) = [100] \<and>
   map consistency_score (quality_model (fixed_clock 2024 2 1) shuffled_frame) = [0]"
proof -
  have "mset (rows shuffled_frame) = mset (rows sorted_frame)"
    by (simp add: shuffled_frame_def sorted_frame_def)
  moreover have "sort_values (rows shuffled_frame) = rows sorted_frame"
    by code_simp
  moreover have "map consistency_score (quality_model (fixed_clock 2024 2 1) sorted_frame) = [100]"
    by code_simp
  moreover have "map consistency_score (quality_model (fixed_clock 2024 2 1) shuffled_frame) = [0]"
    by code_simp
  ultimately show ?thesis by simp
qed

subsection \<open>Dependence on the time of the run\<close>

text \<open>
  C3, as stated, fails: on one input relation, a run in February 2024 and a run in
  February 2030 differ in \<open>timeliness_score\<close>, \<open>overall_quality_score\<close>,
  \<open>quality_grade\<close>, \<open>primary_issue\<close> and \<open>requires_attention\<close>.
\<close>

theorem run_time_dependence_counterexample:
  "map timeliness_score (quality_model (fixed_clock 2024 2 1) out_of_range_frame) = [100] \<and>
   map timeliness_score (quality_model (fixed_clock 2030 2 1) out_of_range_frame) = [0] \<and>
   map overall_quality_score (quality_model (fixed_clock 2024 2 1) out_of_range_frame) = [75] \<and>
   map overall_quality_score (quality_model (fixed_clock 2030 2 1) out_of_range_frame) = [50] \<and>
   map quality_grade (quality_model (fixed_clock 2024 2 1) out_of_range_frame) = [''C''] \<and>
   map quality_grade (quality_model (fixed_clock 2030 2 1) out_of_range_frame) = [''F''] \<and>
   map primary_issue (quality_model (fixed_clock 2024 2 1) out_of_range_frame) = [''validity''] \<and>
   map primary_issue (quality_model (fixed_clock 2030 2 1) out_of_range_frame) = [''timeliness''] \<and>
   map requires_attention (quality_model (fixed_clock 2024 2 1) out_of_range_frame) = [False] \<and>
   map requires_attention (quality_model (fixed_clock 2030 2 1) out_of_range_frame) = [True]"
  by code_simp

lemma strip_score_country:
  "strip_quality (score_country n1 n2 df c) = strip_quality (score_country m1 m2 df c)"
  by (simp add: strip_quality_def score_country_def calculate_timeliness_def Let_def split: option.splits)

lemma strip_score_countries:
  "map strip_quality (score_countries clock1 k df cs) = map strip_quality (score_countries clock2 j df cs)"
  by (induction cs arbitrary: k j) (simp_all add: strip_score_country)

lemma strip_forecast_row:
  "strip_forecast (forecast_row n c s es l t lr i) = strip_forecast (forecast_row m c s es l t lr i)"
  by (simp add: strip_forecast_def forecast_row_def Let_def)

lemma strip_country_forecasts:
  "map strip_forecast (country_forecasts clock1 k c s) = map strip_forecast (country_forecasts clock2 j c s)"
  by (simp add: country_forecasts_def Let_def strip_forecast_row)

lemma strip_forecast_countries:
  "map_sum id (map strip_forecast) (forecast_countries clock1 k df cs) =
   map_sum id (map strip_forecast) (forecast_countries clock2 j df cs)"
proof (induction cs arbitrary: k j)
  case Nil
  show ?case by simp
next
  case (Cons c cs)
  show ?case
    using Cons.IH [of k j] Cons.IH [of "k + FORECAST_HORIZON" "j + FORECAST_HORIZON"]
      strip_country_forecasts [of clock1 k c _ clock2 j]
    by (auto simp: Let_def split: sum.splits)
qed

text \<open>
  C3, amended. Two runs on the same input relation with any two clocks agree on every
  field of the quality records other than \<open>scored_at\<close>, \<open>days_since_latest_data\<close>,
  \<open>timeliness_score\<close>, \<open>overall_quality_score\<close>, \<open>quality_grade\<close>,
  \<open>primary_issue\<close> and \<open>requires_attention\<close>, and on every field of the forecast
  records other than \<open>forecast_generated_at\<close> (the forecast run also raises the same
  error, if it raises). The anomaly detector never reads the clock.
\<close>

theorem outputs_independent_of_run_time:
  "map strip_quality (quality_model clock1 df) = map strip_quality (quality_model clock2 df) \<and>
   map_sum id (map strip_forecast) (forecast_model clock1 df) =
   map_sum id (map strip_forecast) (forecast_model clock2 df)"
  unfolding quality_model_def forecast_model_def
  using strip_score_countries strip_forecast_countries by blast

theorem outputs_independent_of_run_time_witness:
  "map strip_quality (quality_model (fixed_clock 2024 2 1) out_of_range_frame) =
   map strip_quality (quality_model (fixed_clock 2030 2 1) out_of_range_frame) \<and>
   map_sum id (map strip_forecast) (forecast_model (fixed_clock 2024 2 1) out_of_range_frame) =
   map_sum id (map strip_forecast) (forecast_model (fixed_clock 2030 2 1) out_of_range_frame)"
  using outputs_independent_of_run_time [of "fixed_clock 2024 2 1" out_of_range_frame "fixed_clock 2030 2 1"]
  by simp

subsection \<open>Series statistics\<close>

lemma dropna_Nil [simp]: "dropna [] = []"
  by (simp add: dropna_def)

lemma dropna_Cons [simp]:
  "dropna (c # cs) = (case c of None \<Rightarrow> dropna cs | Some x \<Rightarrow> x # dropna cs)"
  by (simp add: dropna_def split: option.splits)


lemma length_dropna: "length (dropna cells) = length (filter (\<lambda>c. c \<noteq> None) cells)"
  by (induction cells) (auto split: option.splits)














lemma length_ffill [simp]: "length (ffill p cells) = length cells"
  by (induction p cells rule: ffill.induct) auto

lemma length_pct_change_from [simp]: "length (pct_change_from p cells) = length cells"
  by (induction cells arbitrary: p) auto


lemma length_z_scores [simp]: "length (calculate_z_scores lib cells) = length cells"
  by (simp add: calculate_z_scores_def Let_def)

lemma length_iqr [simp]: "length (detect_iqr_outliers cells) = length cells"
  by (simp add: detect_iqr_outliers_def Let_def split: option.splits prod.splits)

lemma length_roc [simp]: "length (detect_rate_of_change_anomalies pad cells t) = length cells"
  by (simp add: detect_rate_of_change_anomalies_def pct_change_abs_def)

lemma length_detect_indicator [simp]: "length (detect_indicator lib cells) = length cells"
  by (simp add: detect_indicator_def)


lemma detect_indicator_short:
  "\<not> 10 < length (dropna cells) \<Longrightarrow>
   detect_indicator lib cells = map (\<lambda>_. \<lparr>z_score = None, iqr_outlier = False, roc_anomaly = False\<rparr>) cells"
  by (simp add: detect_indicator_def)

subsection \<open>Structure of the anomaly run\<close>

lemma set_unique [simp]: "set (unique xs) = set xs"
proof (induction xs rule: unique.induct)
  case 1
  show ?case by simp
next
  case (2 x xs)
  then show ?case by auto
qed

lemma distinct_unique [simp]: "distinct (unique xs)"
proof (induction xs rule: unique.induct)
  case 1
  show ?case by simp
next
  case (2 x xs)
  then show ?case by simp
qed

lemma collect_Inr_iff: "collect xs = Inr ys \<longleftrightarrow> xs = map Inr ys"
proof (induction xs arbitrary: ys)
  case Nil
  show ?case by auto
next
  case (Cons x xs)
  show ?case
  proof (cases x)
    case (Inl e)
    then show ?thesis by (cases ys) auto
  next
    case (Inr a)
    show ?thesis
    proof (cases "collect xs")
      case (Inl e)
      then have "\<And>zs. xs \<noteq> map Inr zs" using Cons.IH by force
      with Inl Inr show ?thesis by (cases ys) auto
    next
      case r: (Inr zs)
      then have "xs = map Inr zs" using Cons.IH by simp
      with r Inr show ?thesis by (cases ys) auto
    qed
  qed
qed

lemma set_sort_values [simp]: "set (sort_values rs) = set rs"
  by (simp add: sort_values_def)

lemma length_sort_values [simp]: "length (sort_values rs) = length rs"
  by (simp add: sort_values_def)

lemma mset_sort_values [simp]: "mset (sort_values rs) = mset rs"
  by (simp add: sort_values_def)

lemma count_notna_sorted:
  "length (dropna (map f (sort_values rs))) = length (dropna (map f rs))"
proof -
  have "length (dropna (map f xs)) = size (filter_mset (\<lambda>r. f r \<noteq> None) (mset xs))" for xs :: "row list"
    by (simp add: length_dropna filter_map comp_def flip: mset_filter)
  then show ?thesis by simp
qed


lemma column_unemployment:
  "column df ''unemployment_rate_pct'' rs =
     (if has_unemployment df then Some (map unemployment_rate_pct rs) else None)"
  by (simp add: column_def)

lemma column_inflation:
  "column df ''inflation_rate_mom_pct'' rs =
     (if has_inflation df then Some (map inflation_rate_mom_pct rs) else None)"
  by (simp add: column_def)

lemma length_detect_country [simp]:
  "length (detect_country lib df c) = length (country_rows df c)"
  by (simp add: detect_country_def Let_def column_unemployment column_inflation)

lemma detect_country_nth:
  assumes "k < length (country_rows df c)"
  shows "w_row (detect_country lib df c ! k) = sort_values (country_rows df c) ! k"
    and "w_unemployment (detect_country lib df c ! k) =
           (if has_unemployment df
            then Some (detect_indicator lib (map unemployment_rate_pct (sort_values (country_rows df c))) ! k)
            else None)"
    and "w_inflation (detect_country lib df c ! k) =
           (if has_inflation df
            then Some (detect_indicator lib (map inflation_rate_mom_pct (sort_values (country_rows df c))) ! k)
            else None)"
  using assms
  by (simp_all add: detect_country_def Let_def column_unemployment column_inflation)


lemma finalize_row_Inr:
  assumes "finalize_row w = Inr a"
  obtains u i where "w_unemployment w = Some u" and "w_inflation w = Some i"
    and "row.truncate a = w_row w"
    and "country_code a = country_code (w_row w)"
    and "unemployment_z_score a = z_score u" and "inflation_z_score a = z_score i"
    and "is_unemployment_anomaly a = composite_flag u"
    and "is_inflation_anomaly a = composite_flag i"
proof (cases "w_unemployment w")
  case None
  with assms show ?thesis by (simp add: finalize_row_def)
next
  case u: (Some u)
  show ?thesis
  proof (cases "w_inflation w")
    case None
    with assms u show ?thesis by (simp add: finalize_row_def)
  next
    case i: (Some i)
    from assms u i have a: "a = row.extend (w_row w)
        \<lparr>unemployment_z_score = z_score u, inflation_z_score = z_score i,
         is_unemployment_anomaly = composite_flag u, is_inflation_anomaly = composite_flag i,
         is_any_anomaly = (composite_flag u \<or> composite_flag i),
         anomaly_severity_score = clip 0 100 (severity_term (z_score u) + severity_term (z_score i))\<rparr>"
      by (simp add: finalize_row_def)
    show ?thesis
      by (rule that [OF u i]) (simp_all add: a row.defs anomaly_row.defs)
  qed
qed

lemma finalize_row_total:
  "w_unemployment w \<noteq> None \<Longrightarrow> w_inflation w \<noteq> None \<Longrightarrow> \<exists>a. finalize_row w = Inr a"
  by (auto simp: finalize_row_def)

lemma detect_country_mem:
  assumes "w \<in> set (detect_country lib df c)"
  obtains k where "k < length (country_rows df c)" and "w = detect_country lib df c ! k"
  using assms by (auto simp: in_set_conv_nth)

lemma sorted_country_code:
  "k < length (country_rows df c) \<Longrightarrow> country_code (sort_values (country_rows df c) ! k) = c"
proof -
  assume "k < length (country_rows df c)"
  then have "sort_values (country_rows df c) ! k \<in> set (sort_values (country_rows df c))"
    by (intro nth_mem) simp
  then show ?thesis by (simp add: country_rows_def)
qed

lemma anomaly_model_Inr:
  assumes "anomaly_model lib df = Inr out"
  shows "map finalize_row (concat (map (detect_country lib df) (unique (map country_code (rows df)))))
         = map Inr out"
  using assms by (simp add: anomaly_model_def Let_def collect_Inr_iff split: if_splits)

lemma anomaly_model_total:
  assumes "has_unemployment df" and "has_inflation df" and "rows df \<noteq> []"
  shows "\<exists>out. anomaly_model lib df = Inr out"
proof -
  define ws where "ws = concat (map (detect_country lib df) (unique (map country_code (rows df))))"
  have "\<exists>a. finalize_row w = Inr a" if "w \<in> set ws" for w
  proof -
    from that obtain c where "w \<in> set (detect_country lib df c)"
      by (auto simp: ws_def)
    then obtain k where k: "k < length (country_rows df c)" "w = detect_country lib df c ! k"
      by (rule detect_country_mem)
    then show ?thesis
      using assms by (intro finalize_row_total) (simp_all add: detect_country_nth)
  qed
  then have "finalize_row w = Inr (projr (finalize_row w))" if "w \<in> set ws" for w
    using that by force
  then have "map finalize_row ws = map Inr (map (\<lambda>w. projr (finalize_row w)) ws)"
    by (simp add: comp_def)
  then have "collect (map finalize_row ws) = Inr (map (\<lambda>w. projr (finalize_row w)) ws)"
    by (simp only: collect_Inr_iff)
  moreover have "unique (map country_code (rows df)) \<noteq> []"
    using assms(3) by (cases "rows df") simp_all
  ultimately show ?thesis
    by (simp add: anomaly_model_def Let_def ws_def)
qed

text \<open>Every output row comes from a position of its own country's sorted series.\<close>

lemma anomaly_row_origin:
  assumes "anomaly_model lib df = Inr out" and "a \<in> set out"
  obtains k where "k < length (country_rows df (country_code a))"
    and "finalize_row (detect_country lib df (country_code a) ! k) = Inr a"
proof -
  define ws where "ws = concat (map (detect_country lib df) (unique (map country_code (rows df))))"
  have m: "map finalize_row ws = map Inr out"
    unfolding ws_def by (rule anomaly_model_Inr [OF assms(1)])
  from assms(2) have "Inr a \<in> set (map finalize_row ws)" by (simp add: m)
  then obtain w where w: "w \<in> set ws" "finalize_row w = Inr a" by auto
  from w(1) obtain c where "w \<in> set (detect_country lib df c)" by (auto simp: ws_def)
  then obtain k where k: "k < length (country_rows df c)" "w = detect_country lib df c ! k"
    by (rule detect_country_mem)
  have "country_code a = country_code (w_row w)"
    using w(2) by (rule finalize_row_Inr)
  also have "\<dots> = c" using k by (simp add: detect_country_nth sorted_country_code)
  finally have "country_code a = c" .
  with k w(2) that show ?thesis by simp
qed

subsection \<open>Identical values, short series and a missing column\<close>

lemma z_exceeds_None [simp]: "\<not> z_exceeds None"
  by (simp add: z_exceeds_def)

lemma z_exceeds_zero [simp]: "\<not> z_exceeds (Some 0)"
  by (simp add: z_exceeds_def Z_SCORE_THRESHOLD_def)

lemma truncate_fields [simp]:
  "country_code (row.truncate a) = country_code a"
  "unemployment_rate_pct (row.truncate a) = unemployment_rate_pct a"
  "inflation_rate_mom_pct (row.truncate a) = inflation_rate_mom_pct a"
  by (simp_all add: row.defs)

text \<open>
  The derived cells of an output row are those of its position in the sorted series of
  its country.
\<close>

lemma anomaly_row_unemployment:
  assumes "anomaly_model lib df = Inr out" and "a \<in> set out"
  obtains k where "k < length (country_rows df (country_code a))"
    and "has_unemployment df"
    and "unemployment_rate_pct a =
           map unemployment_rate_pct (sort_values (country_rows df (country_code a))) ! k"
    and "unemployment_z_score a =
           z_score (detect_indicator lib
             (map unemployment_rate_pct (sort_values (country_rows df (country_code a)))) ! k)"
    and "is_unemployment_anomaly a =
           composite_flag (detect_indicator lib
             (map unemployment_rate_pct (sort_values (country_rows df (country_code a)))) ! k)"
proof -
  from assms obtain k where k: "k < length (country_rows df (country_code a))"
    and f: "finalize_row (detect_country lib df (country_code a) ! k) = Inr a"
    by (rule anomaly_row_origin)
  from f obtain u where u: "w_unemployment (detect_country lib df (country_code a) ! k) = Some u"
    and r: "row.truncate a = w_row (detect_country lib df (country_code a) ! k)"
    and z: "unemployment_z_score a = z_score u" "is_unemployment_anomaly a = composite_flag u"
    by (rule finalize_row_Inr)
  from u k have h: "has_unemployment df"
    and d: "u = detect_indicator lib
             (map unemployment_rate_pct (sort_values (country_rows df (country_code a)))) ! k"
    by (simp_all add: detect_country_nth split: if_splits)
  have "unemployment_rate_pct a = unemployment_rate_pct (row.truncate a)" by simp
  also have "\<dots> = map unemployment_rate_pct (sort_values (country_rows df (country_code a))) ! k"
    using k by (simp add: r detect_country_nth)
  finally have c: "unemployment_rate_pct a =
      map unemployment_rate_pct (sort_values (country_rows df (country_code a))) ! k" .
  from k h c z d that show ?thesis by simp
qed

lemma anomaly_row_inflation:
  assumes "anomaly_model lib df = Inr out" and "a \<in> set out"
  obtains k where "k < length (country_rows df (country_code a))"
    and "has_inflation df"
    and "inflation_rate_mom_pct a =
           map inflation_rate_mom_pct (sort_values (country_rows df (country_code a))) ! k"
    and "inflation_z_score a =
           z_score (detect_indicator lib
             (map inflation_rate_mom_pct (sort_values (country_rows df (country_code a)))) ! k)"
    and "is_inflation_anomaly a =
           composite_flag (detect_indicator lib
             (map inflation_rate_mom_pct (sort_values (country_rows df (country_code a)))) ! k)"
proof -
  from assms obtain k where k: "k < length (country_rows df (country_code a))"
    and f: "finalize_row (detect_country lib df (country_code a) ! k) = Inr a"
    by (rule anomaly_row_origin)
  from f obtain i where i: "w_inflation (detect_country lib df (country_code a) ! k) = Some i"
    and r: "row.truncate a = w_row (detect_country lib df (country_code a) ! k)"
    and z: "inflation_z_score a = z_score i" "is_inflation_anomaly a = composite_flag i"
    by (rule finalize_row_Inr)
  from i k have h: "has_inflation df"
    and d: "i = detect_indicator lib
             (map inflation_rate_mom_pct (sort_values (country_rows df (country_code a)))) ! k"
    by (simp_all add: detect_country_nth split: if_splits)
  have "inflation_rate_mom_pct a = inflation_rate_mom_pct (row.truncate a)" by simp
  also have "\<dots> = map inflation_rate_mom_pct (sort_values (country_rows df (country_code a))) ! k"
    using k by (simp add: r detect_country_nth)
  finally have c: "inflation_rate_mom_pct a =
      map inflation_rate_mom_pct (sort_values (country_rows df (country_code a))) ! k" .
  from k h c z d that show ?thesis by simp
qed


lemma short_position:
  assumes "\<not> 10 < length (dropna (map f rs))" and "k < length rs"
  shows "z_score (detect_indicator lib (map f (sort_values rs)) ! k) = None"
    and "\<not> iqr_outlier (detect_indicator lib (map f (sort_values rs)) ! k)"
    and "\<not> roc_anomaly (detect_indicator lib (map f (sort_values rs)) ! k)"
    and "\<not> composite_flag (detect_indicator lib (map f (sort_values rs)) ! k)"
proof -
  have d: "detect_indicator lib (map f (sort_values rs)) ! k =
      \<lparr>z_score = None, iqr_outlier = False, roc_anomaly = False\<rparr>"
    using assms by (simp add: detect_indicator_short count_notna_sorted)
  show "z_score (detect_indicator lib (map f (sort_values rs)) ! k) = None"
    by (simp add: d)
  show "\<not> iqr_outlier (detect_indicator lib (map f (sort_values rs)) ! k)"
    by (simp add: d)
  show "\<not> roc_anomaly (detect_indicator lib (map f (sort_values rs)) ! k)"
    by (simp add: d)
  show "\<not> composite_flag (detect_indicator lib (map f (sort_values rs)) ! k)"
    by (simp add: d composite_flag_def)
qed



lemma concat_single:
  "distinct cs \<Longrightarrow>
   concat (map (\<lambda>c'. if c' = c then xs else []) cs) = (if c \<in> set cs then xs else [])"
  by (induction cs) auto

lemma filter_detect_country:
  "filter (\<lambda>w. country_code (w_row w) = c) (detect_country lib df c') =
     (if c' = c then detect_country lib df c else [])"
proof -
  have "country_code (w_row w) = c'" if "w \<in> set (detect_country lib df c')" for w
  proof -
    from that obtain k where "k < length (country_rows df c')" "w = detect_country lib df c' ! k"
      by (rule detect_country_mem)
    then show ?thesis by (simp add: detect_country_nth sorted_country_code)
  qed
  then show ?thesis by (auto simp: filter_empty_conv filter_id_conv)
qed

lemma map_w_row_detect_country:
  "map w_row (detect_country lib df c) = sort_values (country_rows df c)"
  by (simp add: list_eq_iff_nth_eq detect_country_nth)

lemma country_rows_empty:
  "c \<notin> set (map country_code (rows df)) \<Longrightarrow> country_rows df c = []"
  by (auto simp: country_rows_def filter_empty_conv)

lemma sort_values_Nil [simp]: "sort_values [] = []"
  by (simp add: sort_values_def)

text \<open>The output rows of a country are its input rows, in date order.\<close>

lemma anomaly_rows_of_country:
  assumes "anomaly_model lib df = Inr out"
  shows "map row.truncate (filter (\<lambda>a. country_code a = c) out) = sort_values (country_rows df c)"
proof -
  define cs where "cs = unique (map country_code (rows df))"
  define ws where "ws = concat (map (detect_country lib df) cs)"
  have m: "map finalize_row ws = map Inr out"
    unfolding ws_def cs_def by (rule anomaly_model_Inr [OF assms])
  have len: "length ws = length out"
    using m by (metis length_map)
  have t: "row.truncate (out ! k) = w_row (ws ! k)" if "k < length out" for k
  proof -
    from m that len have "finalize_row (ws ! k) = Inr (out ! k)"
      by (metis nth_map)
    then show ?thesis by (rule finalize_row_Inr)
  qed
  have tr: "map row.truncate out = map w_row ws"
    using len t by (simp add: list_eq_iff_nth_eq)
  have "map row.truncate (filter (\<lambda>a. country_code a = c) out) =
        filter (\<lambda>r. country_code r = c) (map row.truncate out)"
    by (simp add: filter_map comp_def)
  also have "\<dots> = map w_row (filter (\<lambda>w. country_code (w_row w) = c) ws)"
    by (simp add: tr filter_map comp_def)
  also have "filter (\<lambda>w. country_code (w_row w) = c) ws =
        concat (map (\<lambda>c'. if c' = c then detect_country lib df c else []) cs)"
    by (simp add: ws_def filter_concat comp_def filter_detect_country)
  also have "\<dots> = (if c \<in> set cs then detect_country lib df c else [])"
    by (rule concat_single) (simp add: cs_def)
  also have "map w_row \<dots> = sort_values (country_rows df c)"
    by (simp add: map_w_row_detect_country cs_def country_rows_empty)
  finally show ?thesis .
qed

lemma anomaly_row_country:
  assumes "anomaly_model lib df = Inr out" and "a \<in> set out"
  shows "country_code a \<in> country_code ` set (rows df)"
proof -
  from assms obtain k where "k < length (country_rows df (country_code a))"
    by (rule anomaly_row_origin)
  then have "country_rows df (country_code a) \<noteq> []" by auto
  then obtain r where "r \<in> set (country_rows df (country_code a))"
    by (cases "country_rows df (country_code a)") auto
  then have "r \<in> set (rows df)" "country_code r = country_code a"
    by (simp_all add: country_rows_def)
  then show ?thesis by (metis imageI)
qed

lemma single_country_output:
  assumes "anomaly_model lib df = Inr out" and "country_code ` set (rows df) \<subseteq> {c}"
  shows "map row.truncate out = sort_values (rows df)"
proof -
  have "\<And>a. a \<in> set out \<Longrightarrow> country_code a = c"
    using anomaly_row_country [OF assms(1)] assms(2) by blast
  then have "filter (\<lambda>a. country_code a = c) out = out"
    by (simp add: filter_id_conv)
  moreover have "country_rows df c = rows df"
    using assms(2) by (auto simp: country_rows_def filter_id_conv)
  ultimately show ?thesis
    using anomaly_rows_of_country [OF assms(1), of c] by simp
qed

lemmas run_defs =
  anomaly_model_def detect_country_def country_rows_def sort_values_def column_def
  detect_indicator_def finalize_row_def mk_row_def composite_flag_def z_exceeds_def
  severity_term_def clip_def



text \<open>
  C2. The per-country loop skips an indicator whose column is not in the input, but the
  composite flags are then computed from \<open>result_df['unemployment_z_score']\<close> and
  \<open>result_df['inflation_z_score']\<close> without such a guard: with either tracked column
  absent the run raises KeyError and produces no rows.
\<close>

theorem missing_column_raises:
  "anomaly_model lib no_unemployment_frame = Inl (KeyError ''unemployment_z_score'') \<and>
   anomaly_model lib no_inflation_frame = Inl (KeyError ''inflation_z_score'')"
  by (simp add: no_unemployment_frame_def no_inflation_frame_def run_defs)


subsection \<open>Structure of the forecast run\<close>

lemma length_unemployment_series:
  "length (unemployment_series rs) = length (dropna (map unemployment_rate_pct rs))"
  by (induction rs) (auto simp: unemployment_series_def split: option.splits)

lemma map_snd_unemployment_series:
  "map snd (unemployment_series rs) = dropna (map unemployment_rate_pct rs)"
  by (induction rs) (auto simp: unemployment_series_def split: option.splits)

lemma length_series_cells:
  "length (unemployment_series (sort_values (country_rows df c))) =
   length (dropna (unemployment_cells df c))"
  by (simp add: length_unemployment_series unemployment_cells_def)

lemma forecast_countries_total:
  "has_unemployment df \<Longrightarrow> \<exists>fs. forecast_countries clock k df cs = Inr fs"
proof (induction cs arbitrary: k)
  case Nil
  show ?case by simp
next
  case (Cons c cs)
  from Cons.IH [OF Cons.prems, of k] Cons.IH [OF Cons.prems, of "k + FORECAST_HORIZON"]
  show ?case using Cons.prems by (auto simp: Let_def)
qed

lemma country_forecasts_country:
  "f \<in> set (country_forecasts clock k c s) \<Longrightarrow> f_country_code f = c"
  by (auto simp: country_forecasts_def forecast_row_def Let_def)

lemma filter_country_forecasts:
  "filter (\<lambda>f. f_country_code f = c) (country_forecasts clock k c' s) =
     (if c' = c then country_forecasts clock k c s else [])"
  using country_forecasts_country [of _ clock k c' s]
  by (auto simp: filter_empty_conv filter_id_conv)

text \<open>
  The forecast rows of a country: none if it is skipped, otherwise the six rows of its
  own series, made at some reading of the clock.
\<close>

lemma forecast_countries_filter:
  assumes "forecast_countries clock k df cs = Inr fs" and "distinct cs"
  shows "\<exists>k'. filter (\<lambda>f. f_country_code f = c) fs =
           (if c \<in> set cs \<and>
               MIN_HISTORY_MONTHS \<le> length (unemployment_series (sort_values (country_rows df c)))
            then country_forecasts clock k' c (unemployment_series (sort_values (country_rows df c)))
            else [])"
  using assms
proof (induction cs arbitrary: k fs)
  case Nil
  then show ?case by simp
next
  case (Cons c0 cs)
  from Cons.prems(2) have d: "distinct cs" and n: "c0 \<notin> set cs" by simp_all
  let ?s = "unemployment_series (sort_values (country_rows df c0))"
  from Cons.prems(1) have h: "has_unemployment df"
    by (auto simp: Let_def split: if_splits)
  show ?case
  proof (cases "length ?s < MIN_HISTORY_MONTHS")
    case True
    with Cons.prems(1) h have "forecast_countries clock k df cs = Inr fs"
      by (simp add: Let_def)
    from Cons.IH [OF this d] obtain k' where
      k': "filter (\<lambda>f. f_country_code f = c) fs =
           (if c \<in> set cs \<and>
               MIN_HISTORY_MONTHS \<le> length (unemployment_series (sort_values (country_rows df c)))
            then country_forecasts clock k' c (unemployment_series (sort_values (country_rows df c)))
            else [])" ..
    show ?thesis
    proof (cases "c = c0")
      case True
      with k' n \<open>length ?s < MIN_HISTORY_MONTHS\<close> show ?thesis by auto
    next
      case False
      with k' show ?thesis by auto
    qed
  next
    case False
    with Cons.prems(1) h obtain rest where
      rest: "forecast_countries clock (k + FORECAST_HORIZON) df cs = Inr rest"
      and fs: "fs = country_forecasts clock k c0 ?s @ rest"
      by (auto simp: Let_def split: sum.splits)
    from Cons.IH [OF rest d] obtain k' where
      k': "filter (\<lambda>f. f_country_code f = c) rest =
           (if c \<in> set cs \<and>
               MIN_HISTORY_MONTHS \<le> length (unemployment_series (sort_values (country_rows df c)))
            then country_forecasts clock k' c (unemployment_series (sort_values (country_rows df c)))
            else [])" ..
    show ?thesis
    proof (cases "c = c0")
      case True
      with k' n False fs show ?thesis
        by (auto simp: filter_country_forecasts)
    next
      case False
      with k' fs show ?thesis
        by (auto simp: filter_country_forecasts)
    qed
  qed
qed

lemma eligible_country:
  assumes "0 < length (dropna (unemployment_cells df c))"
  shows "c \<in> set (unique (map country_code (rows df)))"
proof -
  from assms have "country_rows df c \<noteq> []"
    by (auto simp: unemployment_cells_def)
  then obtain r where "r \<in> set (country_rows df c)"
    by (cases "country_rows df c") auto
  then show ?thesis by (auto simp: country_rows_def)
qed

lemma forecast_rows_of_country:
  assumes "has_unemployment df"
  shows "\<exists>k. filter (\<lambda>f. f_country_code f = c) (rows_of (forecast_model clock df)) =
           (if MIN_HISTORY_MONTHS \<le> length (dropna (unemployment_cells df c))
            then country_forecasts clock k c (unemployment_series (sort_values (country_rows df c)))
            else [])"
proof -
  from forecast_countries_total [OF assms] obtain fs where
    fs: "forecast_model clock df = Inr fs"
    unfolding forecast_model_def by blast
  from forecast_countries_filter [OF fs [unfolded forecast_model_def], of c]
  obtain k where k: "filter (\<lambda>f. f_country_code f = c) fs =
           (if c \<in> set (unique (map country_code (rows df))) \<and>
               MIN_HISTORY_MONTHS \<le> length (unemployment_series (sort_values (country_rows df c)))
            then country_forecasts clock k c (unemployment_series (sort_values (country_rows df c)))
            else [])"
    by auto
  have "c \<in> set (unique (map country_code (rows df)))"
    if "MIN_HISTORY_MONTHS \<le> length (dropna (unemployment_cells df c))"
    using that unfolding MIN_HISTORY_MONTHS_def by (intro eligible_country) linarith
  with k fs show ?thesis
    by (auto simp: length_series_cells)
qed

text \<open>Every forecast row is one of the six rows of its own, eligible, country.\<close>

lemma forecast_row_origin:
  assumes "f \<in> set (rows_of (forecast_model clock df))"
  obtains k i where "i < FORECAST_HORIZON"
    and "MIN_HISTORY_MONTHS \<le> length (dropna (unemployment_cells df (f_country_code f)))"
    and "f = country_forecasts clock k (f_country_code f)
               (unemployment_series (sort_values (country_rows df (f_country_code f)))) ! i"
proof -
  have "rows_of (forecast_countries clock k df cs) = []" if "\<not> has_unemployment df" for k cs
    using that by (cases cs) (simp_all add: Let_def)
  from this [of 0 "unique (map country_code (rows df))"] assms have h: "has_unemployment df"
    by (cases "has_unemployment df") (simp_all add: forecast_model_def)
  let ?c = "f_country_code f"
  from forecast_rows_of_country [OF h, of ?c clock] obtain k where
    k: "filter (\<lambda>g. f_country_code g = ?c) (rows_of (forecast_model clock df)) =
           (if MIN_HISTORY_MONTHS \<le> length (dropna (unemployment_cells df ?c))
            then country_forecasts clock k ?c (unemployment_series (sort_values (country_rows df ?c)))
            else [])" ..
  from assms have m: "f \<in> set (filter (\<lambda>g. f_country_code g = ?c) (rows_of (forecast_model clock df)))"
    by simp
  then have e: "MIN_HISTORY_MONTHS \<le> length (dropna (unemployment_cells df ?c))"
    unfolding k by (auto split: if_splits)
  with m k have "f \<in> set (country_forecasts clock k ?c (unemployment_series (sort_values (country_rows df ?c))))"
    by simp
  then obtain i where "i < length (country_forecasts clock k ?c (unemployment_series (sort_values (country_rows df ?c))))"
    and "f = country_forecasts clock k ?c (unemployment_series (sort_values (country_rows df ?c))) ! i"
    by (auto simp: in_set_conv_nth)
  moreover have "length (country_forecasts clock k ?c (unemployment_series (sort_values (country_rows df ?c)))) = FORECAST_HORIZON"
    by (simp add: country_forecasts_def Let_def)
  ultimately show ?thesis using e that by simp
qed

lemma fold_max_date:
  "fold (\<lambda>a b. if date_key b < date_key a then a else b) ds d \<in> set (d # ds) \<and>
   (\<forall>x \<in> set (d # ds).
      date_key x \<le> date_key (fold (\<lambda>a b. if date_key b < date_key a then a else b) ds d))"
proof (induction ds arbitrary: d)
  case Nil
  show ?case by simp
next
  case (Cons a ds)
  show ?case
    using Cons.IH [of "if date_key d < date_key a then a else d"]
    by (auto simp del: less_prod_def less_eq_prod_def)
qed

lemma max_date_Some:
  assumes "ds \<noteq> []"
  obtains m where "max_date ds = Some m" and "m \<in> set ds"
    and "\<And>d. d \<in> set ds \<Longrightarrow> date_key d \<le> date_key m"
proof -
  from assms obtain d ds' where ds: "ds = d # ds'" by (cases ds) auto
  define m where "m = fold (\<lambda>a b. if date_key b < date_key a then a else b) ds' d"
  have 1: "max_date ds = Some m" by (simp add: ds max_date_def m_def)
  have 2: "m \<in> set ds" using fold_max_date [of ds' d] by (simp add: ds m_def)
  have 3: "date_key x \<le> date_key m" if "x \<in> set ds" for x
    using fold_max_date [of ds' d] that unfolding ds m_def by blast
  from 1 2 3 show ?thesis by (rule that)
qed

lemma mem_unemployment_series:
  "d \<in> fst ` set (unemployment_series rs) \<longleftrightarrow>
     (\<exists>r \<in> set rs. unemployment_rate_pct r \<noteq> None \<and> reference_date r = d)"
proof (induction rs)
  case Nil
  show ?case by (simp add: unemployment_series_def)
next
  case (Cons a rs)
  have "unemployment_series (a # rs) =
      (case unemployment_rate_pct a of None \<Rightarrow> [] | Some x \<Rightarrow> [(reference_date a, x)]) @
      unemployment_series rs"
    by (simp add: unemployment_series_def)
  then show ?case using Cons.IH
    by (cases "unemployment_rate_pct a") (auto simp: image_Un)
qed

lemma set_unemployment_series:
  "fst ` set (unemployment_series rs) =
     reference_date ` {r \<in> set rs. unemployment_rate_pct r \<noteq> None}"
proof (rule set_eqI)
  fix d
  show "d \<in> fst ` set (unemployment_series rs) \<longleftrightarrow>
        d \<in> reference_date ` {r \<in> set rs. unemployment_rate_pct r \<noteq> None}"
    unfolding mem_unemployment_series by blast
qed

lemma observed_dates_sorted:
  "set (map fst (unemployment_series (sort_values (country_rows df c)))) =
     reference_date ` {r \<in> set (rows df). country_code r = c \<and> unemployment_rate_pct r \<noteq> None}"
  by (auto simp: set_unemployment_series country_rows_def)

lemma month_number_add_months:
  "month_number (replace_day (add_months d k) n) = month_number d + int k"
  "1 \<le> month (replace_day (add_months d k) n)"
  "month (replace_day (add_months d k) n) \<le> 12"
  "day (replace_day (add_months d k) n) = n"
proof -
  define t where "t = year d * 12 + int (month d) - 1 + int k"
  have m: "0 \<le> t mod 12" "t mod 12 < 12" by simp_all
  have y: "year (replace_day (add_months d k) n) = t div 12"
    and mo: "month (replace_day (add_months d k) n) = nat (t mod 12) + 1"
    by (simp_all add: replace_day_def add_months_def Let_def t_def)
  have "month_number (replace_day (add_months d k) n) = t div 12 * 12 + t mod 12 + 1"
    unfolding month_number_def y mo using m by simp
  also have "\<dots> = t + 1" by simp
  finally show "month_number (replace_day (add_months d k) n) = month_number d + int k"
    by (simp add: t_def month_number_def)
  show "1 \<le> month (replace_day (add_months d k) n)" unfolding mo by simp
  show "month (replace_day (add_months d k) n) \<le> 12" unfolding mo using m by linarith
  show "day (replace_day (add_months d k) n) = n" by (simp add: replace_day_def)
qed

lemma country_forecasts_dates:
  "map forecast_date (country_forecasts clock k c s) =
     map (\<lambda>i. map_option (\<lambda>d. replace_day (add_months d (i + 1)) 1) (max_date (map fst s)))
       [0..<FORECAST_HORIZON]"
  by (simp add: country_forecasts_def forecast_row_def Let_def)

lemma country_forecasts_horizons:
  "map forecast_horizon_months (country_forecasts clock k c s) = map Suc [0..<FORECAST_HORIZON]"
  by (simp add: country_forecasts_def forecast_row_def Let_def)

lemma upt_6: "[0..<6] = [0, 1, 2, 3, 4, 5]"
  by (simp add: upt_rec)

text \<open>
  C6. A country with at least 24 non-missing unemployment observations gets exactly six
  forecast rows, for the horizons 1 to 6. Their forecast dates are first-of-month
  dates; the date of horizon \<open>h\<close> lies \<open>h\<close> calendar months after the month of the
  country's last observed date (the greatest reference date among its rows with an
  unemployment value), so the dates start the month after it and advance by exactly
  one month per row.
\<close>

theorem six_monthly_forecast_rows:
  assumes "has_unemployment df"
    and "MIN_HISTORY_MONTHS \<le> length (dropna (unemployment_cells df c))"
  shows "\<exists>last ds.
     last \<in> reference_date ` {r \<in> set (rows df). country_code r = c \<and> unemployment_rate_pct r \<noteq> None} \<and>
     (\<forall>r \<in> set (rows df). country_code r = c \<and> unemployment_rate_pct r \<noteq> None \<longrightarrow>
        date_key (reference_date r) \<le> date_key last) \<and>
     map forecast_date (filter (\<lambda>f. f_country_code f = c) (rows_of (forecast_model clock df))) =
       map Some ds \<and>
     map forecast_horizon_months
       (filter (\<lambda>f. f_country_code f = c) (rows_of (forecast_model clock df))) = [1, 2, 3, 4, 5, 6] \<and>
     length ds = 6 \<and>
     (\<forall>i < 6. day (ds ! i) = 1 \<and> 1 \<le> month (ds ! i) \<and> month (ds ! i) \<le> 12 \<and>
               month_number (ds ! i) = month_number last + int i + 1)"
proof -
  let ?s = "unemployment_series (sort_values (country_rows df c))"
  let ?fs = "filter (\<lambda>f. f_country_code f = c) (rows_of (forecast_model clock df))"
  from forecast_rows_of_country [OF assms(1), of c clock] assms(2)
  obtain k where fs: "?fs = country_forecasts clock k c ?s" by auto
  from assms(2) have "map fst ?s \<noteq> []"
    by (auto simp: length_series_cells [symmetric] MIN_HISTORY_MONTHS_def)
  then obtain last where l: "max_date (map fst ?s) = Some last"
    and lm: "last \<in> set (map fst ?s)"
    and lg: "\<And>d. d \<in> set (map fst ?s) \<Longrightarrow> date_key d \<le> date_key last"
    by (rule max_date_Some) blast
  define ds where "ds = map (\<lambda>i. replace_day (add_months last (i + 1)) 1) [0..<FORECAST_HORIZON]"
  have 1: "last \<in> reference_date ` {r \<in> set (rows df). country_code r = c \<and> unemployment_rate_pct r \<noteq> None}"
    using lm unfolding observed_dates_sorted .
  have 2: "\<forall>r \<in> set (rows df). country_code r = c \<and> unemployment_rate_pct r \<noteq> None \<longrightarrow>
        date_key (reference_date r) \<le> date_key last"
    using lg unfolding observed_dates_sorted by blast
  have 3: "map forecast_date ?fs = map Some ds"
    by (simp add: fs country_forecasts_dates l ds_def)
  have 4: "map forecast_horizon_months ?fs = [1, 2, 3, 4, 5, 6]"
    by (simp add: fs country_forecasts_horizons FORECAST_HORIZON_def upt_6)
  have 5: "length ds = 6" by (simp add: ds_def FORECAST_HORIZON_def)
  have 6: "\<forall>i < 6. day (ds ! i) = 1 \<and> 1 \<le> month (ds ! i) \<and> month (ds ! i) \<le> 12 \<and>
               month_number (ds ! i) = month_number last + int i + 1"
  proof (intro allI impI)
    fix i :: nat
    assume "i < 6"
    then have e: "ds ! i = replace_day (add_months last (i + 1)) 1"
      by (simp add: ds_def FORECAST_HORIZON_def)
    have "month_number (ds ! i) = month_number last + int (i + 1)"
      unfolding e by (rule month_number_add_months)
    then have "month_number (ds ! i) = month_number last + int i + 1" by simp
    moreover have "day (ds ! i) = 1" unfolding e by (rule month_number_add_months)
    moreover have "1 \<le> month (ds ! i)" unfolding e by (rule month_number_add_months)
    moreover have "month (ds ! i) \<le> 12" unfolding e by (rule month_number_add_months)
    ultimately show "day (ds ! i) = 1 \<and> 1 \<le> month (ds ! i) \<and> month (ds ! i) \<le> 12 \<and>
               month_number (ds ! i) = month_number last + int i + 1"
      by (intro conjI)
  qed
  show ?thesis
    by (rule exI [of _ last], rule exI [of _ ds]) (intro conjI 1 2 3 4 5 6)
qed

lemma eligible_rows:
  assumes "has_unemployment df"
    and "MIN_HISTORY_MONTHS \<le> length (dropna (unemployment_cells df c))"
  obtains k where "filter (\<lambda>f. f_country_code f = c) (rows_of (forecast_model clock df)) =
      country_forecasts clock k c (unemployment_series (sort_values (country_rows df c)))"
proof -
  from forecast_rows_of_country [OF assms(1), of c clock] obtain k where
    "filter (\<lambda>f. f_country_code f = c) (rows_of (forecast_model clock df)) =
           (if MIN_HISTORY_MONTHS \<le> length (dropna (unemployment_cells df c))
            then country_forecasts clock k c (unemployment_series (sort_values (country_rows df c)))
            else [])" ..
  then have "filter (\<lambda>f. f_country_code f = c) (rows_of (forecast_model clock df)) =
      country_forecasts clock k c (unemployment_series (sort_values (country_rows df c)))"
    by (simp only: assms(2) if_True)
  then show ?thesis by (rule that)
qed

theorem six_monthly_forecast_rows_witness:
  "map forecast_date
     (filter (\<lambda>f. f_country_code f = ''DE'')
        (rows_of (forecast_model (fixed_clock 2024 1 15) spike_frame))) =
     [Some \<lparr>year = 2024, month = 1, day = 1\<rparr>, Some \<lparr>year = 2024, month = 2, day = 1\<rparr>,
      Some \<lparr>year = 2024, month = 3, day = 1\<rparr>, Some \<lparr>year = 2024, month = 4, day = 1\<rparr>,
      Some \<lparr>year = 2024, month = 5, day = 1\<rparr>, Some \<lparr>year = 2024, month = 6, day = 1\<rparr>] \<and>
   map forecast_horizon_months
     (filter (\<lambda>f. f_country_code f = ''DE'')
        (rows_of (forecast_model (fixed_clock 2024 1 15) spike_frame))) = [1, 2, 3, 4, 5, 6]"
proof -
  let ?clock = "fixed_clock 2024 1 15"
  let ?fs = "filter (\<lambda>f. f_country_code f = ''DE'') (rows_of (forecast_model ?clock spike_frame))"
  have h: "has_unemployment spike_frame" by (simp add: spike_frame_def)
  have n: "MIN_HISTORY_MONTHS \<le> length (dropna (unemployment_cells spike_frame ''DE''))"
    by code_simp
  have hz: "map forecast_horizon_months ?fs = [1, 2, 3, 4, 5, 6]"
    using six_monthly_forecast_rows [OF h n, of ?clock] by (elim exE conjE)
  obtain k where
    k: "?fs = country_forecasts ?clock k ''DE''
              (unemployment_series (sort_values (country_rows spike_frame ''DE'')))"
    using h n by (rule eligible_rows)
  have "map (\<lambda>i. map_option (\<lambda>d. replace_day (add_months d (i + 1)) 1)
          (max_date (map fst (unemployment_series (sort_values (country_rows spike_frame ''DE''))))))
          [0..<FORECAST_HORIZON] =
     [Some \<lparr>year = 2024, month = 1, day = 1\<rparr>, Some \<lparr>year = 2024, month = 2, day = 1\<rparr>,
      Some \<lparr>year = 2024, month = 3, day = 1\<rparr>, Some \<lparr>year = 2024, month = 4, day = 1\<rparr>,
      Some \<lparr>year = 2024, month = 5, day = 1\<rparr>, Some \<lparr>year = 2024, month = 6, day = 1\<rparr>]"
    by code_simp
  then have "map forecast_date ?fs =
     [Some \<lparr>year = 2024, month = 1, day = 1\<rparr>, Some \<lparr>year = 2024, month = 2, day = 1\<rparr>,
      Some \<lparr>year = 2024, month = 3, day = 1\<rparr>, Some \<lparr>year = 2024, month = 4, day = 1\<rparr>,
      Some \<lparr>year = 2024, month = 5, day = 1\<rparr>, Some \<lparr>year = 2024, month = 6, day = 1\<rparr>]"
    unfolding k country_forecasts_dates .
  with hz show ?thesis by (intro conjI)
qed

lemma forecast_skipped:
  assumes "has_unemployment df"
    and "\<And>c. c \<in> set cs \<Longrightarrow>
          length (unemployment_series (sort_values (country_rows df c))) < MIN_HISTORY_MONTHS"
  shows "forecast_countries clock k df cs = Inr []"
  using assms by (induction cs arbitrary: k) (simp_all add: Let_def)

text \<open>
  C5. Let the input have both tracked columns and take one of its countries with fewer
  than 24 non-missing unemployment observations. The forecast run does not raise and
  has no row for the country. The anomaly run does not raise either: its rows for the
  country are the country's input rows in date order, one for each; and when the
  country has fewer than 11 non-missing values of an indicator, each of these rows has
  a missing z-score and a false anomaly flag for it, the IQR-outlier and
  rate-of-change flags of the loop body being false as well.
\<close>

theorem short_history_handling:
  assumes "has_unemployment df" and "has_inflation df"
    and "c \<in> set (map country_code (rows df))"
    and "length (dropna (unemployment_cells df c)) < MIN_HISTORY_MONTHS"
  shows "\<exists>fs out.
     forecast_model clock df = Inr fs \<and> filter (\<lambda>f. f_country_code f = c) fs = [] \<and>
     anomaly_model lib df = Inr out \<and>
     map row.truncate (filter (\<lambda>a. country_code a = c) out) = sort_values (country_rows df c) \<and>
     (\<forall>a \<in> set out. country_code a = c \<longrightarrow>
        (length (dropna (unemployment_cells df c)) < 11 \<longrightarrow>
           unemployment_z_score a = None \<and> \<not> is_unemployment_anomaly a) \<and>
        (length (dropna (inflation_cells df c)) < 11 \<longrightarrow>
           inflation_z_score a = None \<and> \<not> is_inflation_anomaly a)) \<and>
     (\<forall>r \<in> set (detect_country lib df c).
        (length (dropna (unemployment_cells df c)) < 11 \<longrightarrow>
           w_unemployment r = Some \<lparr>z_score = None, iqr_outlier = False, roc_anomaly = False\<rparr>) \<and>
        (length (dropna (inflation_cells df c)) < 11 \<longrightarrow>
           w_inflation r = Some \<lparr>z_score = None, iqr_outlier = False, roc_anomaly = False\<rparr>))"
proof -
  from forecast_countries_total [OF assms(1)] obtain fs where
    fs: "forecast_model clock df = Inr fs"
    unfolding forecast_model_def by blast
  from forecast_rows_of_country [OF assms(1), of c clock] assms(4) fs
  have 1: "filter (\<lambda>f. f_country_code f = c) fs = []" by auto
  from assms(3) have "rows df \<noteq> []" by auto
  from anomaly_model_total [OF assms(1,2) this] obtain out where
    out: "anomaly_model lib df = Inr out" by blast
  have 2: "map row.truncate (filter (\<lambda>a. country_code a = c) out) = sort_values (country_rows df c)"
    by (rule anomaly_rows_of_country [OF out])
  have nu: "length (dropna (unemployment_cells df c)) =
      length (dropna (map unemployment_rate_pct (country_rows df c)))"
    unfolding unemployment_cells_def by (rule count_notna_sorted)
  have ni: "length (dropna (inflation_cells df c)) =
      length (dropna (map inflation_rate_mom_pct (country_rows df c)))"
    unfolding inflation_cells_def by (rule count_notna_sorted)
  have 3: "\<forall>a \<in> set out. country_code a = c \<longrightarrow>
        (length (dropna (unemployment_cells df c)) < 11 \<longrightarrow>
           unemployment_z_score a = None \<and> \<not> is_unemployment_anomaly a) \<and>
        (length (dropna (inflation_cells df c)) < 11 \<longrightarrow>
           inflation_z_score a = None \<and> \<not> is_inflation_anomaly a)"
  proof (intro ballI impI conjI)
    fix a
    assume a: "a \<in> set out" and c: "country_code a = c"
    {
      assume s: "length (dropna (unemployment_cells df c)) < 11"
      from out a obtain k where k: "k < length (country_rows df (country_code a))"
        and z: "unemployment_z_score a =
           z_score (detect_indicator lib
             (map unemployment_rate_pct (sort_values (country_rows df (country_code a)))) ! k)"
        and f: "is_unemployment_anomaly a =
           composite_flag (detect_indicator lib
             (map unemployment_rate_pct (sort_values (country_rows df (country_code a)))) ! k)"
        by (rule anomaly_row_unemployment)
      from s have s': "\<not> 10 < length (dropna (map unemployment_rate_pct (country_rows df (country_code a))))"
        unfolding nu c by simp
      show "unemployment_z_score a = None" unfolding z by (rule short_position(1) [OF s' k])
      show "\<not> is_unemployment_anomaly a" unfolding f by (rule short_position(4) [OF s' k])
    }
    {
      assume s: "length (dropna (inflation_cells df c)) < 11"
      from out a obtain k where k: "k < length (country_rows df (country_code a))"
        and z: "inflation_z_score a =
           z_score (detect_indicator lib
             (map inflation_rate_mom_pct (sort_values (country_rows df (country_code a)))) ! k)"
        and f: "is_inflation_anomaly a =
           composite_flag (detect_indicator lib
             (map inflation_rate_mom_pct (sort_values (country_rows df (country_code a)))) ! k)"
        by (rule anomaly_row_inflation)
      from s have s': "\<not> 10 < length (dropna (map inflation_rate_mom_pct (country_rows df (country_code a))))"
        unfolding ni c by simp
      show "inflation_z_score a = None" unfolding z by (rule short_position(1) [OF s' k])
      show "\<not> is_inflation_anomaly a" unfolding f by (rule short_position(4) [OF s' k])
    }
  qed
  have 4: "\<forall>r \<in> set (detect_country lib df c).
        (length (dropna (unemployment_cells df c)) < 11 \<longrightarrow>
           w_unemployment r = Some \<lparr>z_score = None, iqr_outlier = False, roc_anomaly = False\<rparr>) \<and>
        (length (dropna (inflation_cells df c)) < 11 \<longrightarrow>
           w_inflation r = Some \<lparr>z_score = None, iqr_outlier = False, roc_anomaly = False\<rparr>)"
  proof (intro ballI impI conjI)
    fix r
    assume "r \<in> set (detect_country lib df c)"
    then obtain k where k: "k < length (country_rows df c)" "r = detect_country lib df c ! k"
      by (rule detect_country_mem)
    {
      assume "length (dropna (unemployment_cells df c)) < 11"
      then have "\<not> 10 < length (dropna (unemployment_cells df c))" by simp
      then show "w_unemployment r = Some \<lparr>z_score = None, iqr_outlier = False, roc_anomaly = False\<rparr>"
        using k assms(1)
        by (simp add: detect_country_nth detect_indicator_short unemployment_cells_def)
    }
    {
      assume "length (dropna (inflation_cells df c)) < 11"
      then have "\<not> 10 < length (dropna (inflation_cells df c))" by simp
      then show "w_inflation r = Some \<lparr>z_score = None, iqr_outlier = False, roc_anomaly = False\<rparr>"
        using k assms(2)
        by (simp add: detect_country_nth detect_indicator_short inflation_cells_def)
    }
  qed
  show ?thesis
    by (rule exI [of _ fs], rule exI [of _ out]) (intro conjI fs 1 out 2 3 4)
qed

theorem short_history_handling_witness:
  "forecast_model (fixed_clock 2024 7 1) short_frame = Inr [] \<and>
   map row.truncate (rows_of (anomaly_model (exact_arithmetic True) short_frame)) = rows short_frame \<and>
   length (rows short_frame) = 5 \<and>
   list_all (\<lambda>a. unemployment_z_score a = None \<and> \<not> is_unemployment_anomaly a \<and>
                 inflation_z_score a = None \<and> \<not> is_inflation_anomaly a)
     (rows_of (anomaly_model (exact_arithmetic True) short_frame)) \<and>
   map w_unemployment (detect_country (exact_arithmetic True) short_frame ''DE'') =
     replicate 5 (Some \<lparr>z_score = None, iqr_outlier = False, roc_anomaly = False\<rparr>) \<and>
   map w_inflation (detect_country (exact_arithmetic True) short_frame ''DE'') =
     replicate 5 (Some \<lparr>z_score = None, iqr_outlier = False, roc_anomaly = False\<rparr>)"
proof -
  let ?lib = "exact_arithmetic True"
  let ?clock = "fixed_clock 2024 7 1"
  have hu: "has_unemployment short_frame" and hi: "has_inflation short_frame"
    by (simp_all add: short_frame_def)
  have cm: "''DE'' \<in> set (map country_code (rows short_frame))"
    by code_simp
  have cs: "country_code ` set (rows short_frame) \<subseteq> {''DE''}"
    by (auto simp: short_frame_def mk_row_def)
  have un: "unique (map country_code (rows short_frame)) = [''DE'']"
    by code_simp
  have nu: "length (dropna (unemployment_cells short_frame ''DE'')) = 5"
    by code_simp
  have ni: "length (dropna (inflation_cells short_frame ''DE'')) = 5"
    by code_simp
  have nr: "length (country_rows short_frame ''DE'') = 5"
    by code_simp
  have sr: "sort_values (rows short_frame) = rows short_frame"
    by code_simp
  have lr: "length (rows short_frame) = 5"
    by code_simp
  have m: "length (dropna (unemployment_cells short_frame ''DE'')) < MIN_HISTORY_MONTHS"
    by (simp add: nu MIN_HISTORY_MONTHS_def)
  from short_history_handling [OF hu hi cm m, of ?clock ?lib] obtain fs out where
    fs: "forecast_model ?clock short_frame = Inr fs"
    and out: "anomaly_model ?lib short_frame = Inr out"
    and z: "\<forall>a \<in> set out. country_code a = ''DE'' \<longrightarrow>
        (length (dropna (unemployment_cells short_frame ''DE'')) < 11 \<longrightarrow>
           unemployment_z_score a = None \<and> \<not> is_unemployment_anomaly a) \<and>
        (length (dropna (inflation_cells short_frame ''DE'')) < 11 \<longrightarrow>
           inflation_z_score a = None \<and> \<not> is_inflation_anomaly a)"
    and w: "\<forall>r \<in> set (detect_country ?lib short_frame ''DE'').
        (length (dropna (unemployment_cells short_frame ''DE'')) < 11 \<longrightarrow>
           w_unemployment r = Some \<lparr>z_score = None, iqr_outlier = False, roc_anomaly = False\<rparr>) \<and>
        (length (dropna (inflation_cells short_frame ''DE'')) < 11 \<longrightarrow>
           w_inflation r = Some \<lparr>z_score = None, iqr_outlier = False, roc_anomaly = False\<rparr>)"
    by (elim exE conjE)
  have 1: "forecast_model ?clock short_frame = Inr []"
    unfolding forecast_model_def un
    by (rule forecast_skipped [OF hu]) (simp add: length_series_cells nu MIN_HISTORY_MONTHS_def)
  have 2: "map row.truncate (rows_of (anomaly_model ?lib short_frame)) = rows short_frame"
    using single_country_output [OF out cs] by (simp add: out sr)
  have c: "country_code a = ''DE''" if "a \<in> set out" for a
    using anomaly_row_country [OF out that] cs by blast
  have 3: "list_all (\<lambda>a. unemployment_z_score a = None \<and> \<not> is_unemployment_anomaly a \<and>
                 inflation_z_score a = None \<and> \<not> is_inflation_anomaly a)
     (rows_of (anomaly_model ?lib short_frame))"
    unfolding out list_all_iff using z c by (simp add: nu ni)
  have wl: "length (detect_country ?lib short_frame ''DE'') = 5"
    by (simp add: nr)
  have 4: "map w_unemployment (detect_country ?lib short_frame ''DE'') =
     replicate 5 (Some \<lparr>z_score = None, iqr_outlier = False, roc_anomaly = False\<rparr>)"
  proof (rule replicate_eqI)
    show "length (map w_unemployment (detect_country ?lib short_frame ''DE'')) = 5"
      by (simp add: nr)
  next
    fix y
    assume "y \<in> set (map w_unemployment (detect_country ?lib short_frame ''DE''))"
    then show "y = Some \<lparr>z_score = None, iqr_outlier = False, roc_anomaly = False\<rparr>"
      using w by (auto simp: nu ni)
  qed
  have 5: "map w_inflation (detect_country ?lib short_frame ''DE'') =
     replicate 5 (Some \<lparr>z_score = None, iqr_outlier = False, roc_anomaly = False\<rparr>)"
  proof (rule replicate_eqI)
    show "length (map w_inflation (detect_country ?lib short_frame ''DE'')) = 5"
      by (simp add: nr)
  next
    fix y
    assume "y \<in> set (map w_inflation (detect_country ?lib short_frame ''DE''))"
    then show "y = Some \<lparr>z_score = None, iqr_outlier = False, roc_anomaly = False\<rparr>"
      using w by (auto simp: nu ni)
  qed
  show ?thesis by (intro conjI 1 2 lr 3 4 5)
qed

(*THMS_END*)

end
